theory Spec2Isabelle
  imports Complex_Main
begin

section \<open>JavaScript values and built-ins used by the frontend\<close>

text \<open>
  Numbers are modelled as \<^typ>\<open>real\<close> (the exact value a JavaScript number stands for;
  where a number is read from a string, the rounding to a double is modelled too), strings
  as \<^typ>\<open>string\<close>, one \<^typ>\<open>char\<close> per code unit; the code units above \<open>0xFF\<close>
  cannot be written in this model. \<open>null\<close> and \<open>undefined\<close> are \<open>None\<close>.
\<close>

subsection \<open>Strings\<close>

fun startsWith :: "string \<Rightarrow> string \<Rightarrow> bool" where
  "startsWith s [] = True"
| "startsWith [] (c # t) = False"
| "startsWith (a # s) (c # t) = (a = c \<and> startsWith s t)"

text \<open>\<open>s.indexOf(t)\<close>; JavaScript's \<open>-1\<close> is \<open>None\<close>.\<close>

fun indexOf :: "string \<Rightarrow> string \<Rightarrow> nat option" where
  "indexOf [] t = (if t = [] then Some 0 else None)"
| "indexOf (a # s) t =
     (if startsWith (a # s) t then Some 0 else map_option Suc (indexOf s t))"

definition str_includes :: "string \<Rightarrow> string \<Rightarrow> bool" where
  "str_includes s t = (indexOf s t \<noteq> None)"

text \<open>\<open>s.substring(i, j)\<close> for \<open>i \<le> j\<close>, and \<open>s.substring(i)\<close>.\<close>

definition substring :: "string \<Rightarrow> nat \<Rightarrow> nat \<Rightarrow> string" where
  "substring s i j = take (j - i) (drop i s)"

definition substring_from :: "string \<Rightarrow> nat \<Rightarrow> string" where
  "substring_from s i = drop i s"

text \<open>\<open>toLowerCase\<close> on the code units below \<open>0x100\<close>: A-Z and the Latin-1 capitals.\<close>

definition lower_char :: "char \<Rightarrow> char" where
  "lower_char c =
     (let n = (of_char c :: nat)
      in if (65 \<le> n \<and> n \<le> 90) \<or> (192 \<le> n \<and> n \<le> 222 \<and> n \<noteq> 215)
         then char_of (n + 32) else c)"

definition toLowerCase :: "string \<Rightarrow> string" where
  "toLowerCase s = map lower_char s"

text \<open>White space as \<open>\s\<close> and \<open>trim\<close> see it, below \<open>0x100\<close>.\<close>

definition isSpace :: "char \<Rightarrow> bool" where
  "isSpace c = (of_char c \<in> {9, 10, 11, 12, 13, 32, 160 :: nat})"

definition trim :: "string \<Rightarrow> string" where
  "trim s = rev (dropWhile isSpace (rev (dropWhile isSpace s)))"

subsection \<open>Decimal digits\<close>

definition isDigit :: "char \<Rightarrow> bool" where
  "isDigit c = (c \<in> set ''0123456789'')"

text \<open>The digit for a number below ten, and the number a digit stands for.\<close>

definition digit_char :: "nat \<Rightarrow> char" where
  "digit_char n = ''0123456789'' ! (n mod 10)"

definition digit_val :: "char \<Rightarrow> nat" where
  "digit_val c = length (takeWhile (\<lambda>d. d \<noteq> c) ''0123456789'') mod 10"

text \<open>The decimal numeral of a natural number, most significant digit first.\<close>

function show_nat :: "nat \<Rightarrow> string" where
  "show_nat n = (if n < 10 then [digit_char n] else show_nat (n div 10) @ [digit_char (n mod 10)])"
  by pat_completeness auto
termination
  by (relation "measure id") auto

declare show_nat.simps [simp del]

text \<open>The value of a digit string, read left to right.\<close>

definition digits_val :: "string \<Rightarrow> nat" where
  "digits_val ds = foldl (\<lambda>acc c. 10 * acc + digit_val c) 0 ds"

subsection \<open>Number.prototype.toFixed and parseFloat\<close>

text \<open>
  \<open>x.toFixed(d)\<close>: the sign is taken off first, then the integer \<open>n\<close> nearest to
  \<open>|x| * 10^d\<close> is chosen, the larger one on a tie, and written with at least one digit
  before the point and exactly \<open>d\<close> after it. (For \<open>|x| \<ge> 10^21\<close> JavaScript switches to
  exponent notation; the coordinates and percentages of this program are far below.)
\<close>

definition toFixed_digits :: "nat \<Rightarrow> real \<Rightarrow> string" where
  "toFixed_digits d x =
     (let m = show_nat (nat \<lfloor>\<bar>x\<bar> * 10 ^ d + 1 / 2\<rfloor>)
      in replicate (Suc d - length m) (CHR ''0'') @ m)"

definition toFixed :: "real \<Rightarrow> nat \<Rightarrow> string" where
  "toFixed x d =
     (let m = toFixed_digits d x;
          k = length m - d
      in (if x < 0 then ''-'' else '''') @ take k m @ (if d = 0 then '''' else ''.'' @ drop k m))"

text \<open>
  The decimal number at the start of a string, as \<open>parseFloat\<close> reads it: leading white
  space, an optional sign, digits, an optional point and digits; what follows is ignored.
  \<open>None\<close> when there is no digit to read. (The strings this program passes are
  \<open>toFixed\<close> results and matches of the coordinate pattern, which have no exponent part and
  are not the word \<open>Infinity\<close>.) The result is the exact number the digits denote.
\<close>

definition parse_unsigned :: "string \<Rightarrow> real option" where
  "parse_unsigned s =
     (let ip = takeWhile isDigit s;
          r = dropWhile isDigit s;
          fp = (case r of c # r' \<Rightarrow> if c = CHR ''.'' then takeWhile isDigit r' else [] | [] \<Rightarrow> [])
      in if ip = [] \<and> fp = [] then None
         else Some (real (digits_val ip) + real (digits_val fp) / 10 ^ length fp))"

definition decimal_value :: "string \<Rightarrow> real option" where
  "decimal_value s =
     (case dropWhile isSpace s of
        [] \<Rightarrow> None
      | c # r \<Rightarrow>
          if c = CHR ''-'' then map_option uminus (parse_unsigned r)
          else if c = CHR ''+'' then parse_unsigned r
          else parse_unsigned (c # r))"

text \<open>
  What \<open>parseFloat\<close> returns is a JavaScript number, a double: \<open>NaN\<close>, an infinity, or a
  finite value, given here by the real number it stands for (the sign of a zero is not kept;
  no comparison sees it).
\<close>

datatype number = NaN | Num real | Infinity | NegInfinity

text \<open>The integer nearest to \<open>y\<close>, the even one on a tie.\<close>

definition round_even :: "real \<Rightarrow> int" where
  "round_even y =
     (let f = \<lfloor>y\<rfloor>;
          r = y - of_int f
      in if r < 1 / 2 then f
         else if 1 / 2 < r then f + 1
         else if even f then f else f + 1)"

text \<open>The exponent \<open>e\<close> of a positive number \<open>x\<close>: \<open>2^e \<le> x < 2^(e+1)\<close>.\<close>

function binary_exponent :: "real \<Rightarrow> int" where
  "binary_exponent x =
     (if x \<le> 0 then 0
      else if 2 \<le> x then binary_exponent (x / 2) + 1
      else if x < 1 then binary_exponent (2 * x) - 1
      else 0)"
  by pat_completeness auto
termination
proof (relation "measure (\<lambda>x. nat \<bar>\<lfloor>log 2 x\<rfloor>\<bar>)")
  show "wf (measure (\<lambda>x. nat \<bar>\<lfloor>log 2 x\<rfloor>\<bar>))" by simp
next
  fix x :: real
  assume "\<not> x \<le> 0" and big: "2 \<le> x"
  then have "log 2 (x / 2) = log 2 x - 1" by (simp add: log_divide)
  then have step: "\<lfloor>log 2 (x / 2)\<rfloor> = \<lfloor>log 2 x\<rfloor> - 1" by simp
  have "1 \<le> log 2 x" using big by (simp add: le_log_iff)
  then have "1 \<le> \<lfloor>log 2 x\<rfloor>" by (simp add: le_floor_iff)
  then show "(x / 2, x) \<in> measure (\<lambda>x. nat \<bar>\<lfloor>log 2 x\<rfloor>\<bar>)"
    unfolding in_measure step by linarith
next
  fix x :: real
  assume pos: "\<not> x \<le> 0" and "\<not> 2 \<le> x" and small: "x < 1"
  then have "log 2 (2 * x) = log 2 x + 1" by (simp add: log_mult)
  then have step: "\<lfloor>log 2 (2 * x)\<rfloor> = \<lfloor>log 2 x\<rfloor> + 1" by simp
  have "log 2 x < 0" using pos small by simp
  then have "\<lfloor>log 2 x\<rfloor> < 0" by (simp add: floor_less_iff)
  then show "(2 * x, x) \<in> measure (\<lambda>x. nat \<bar>\<lfloor>log 2 x\<rfloor>\<bar>)"
    unfolding in_measure step by linarith
qed

declare binary_exponent.simps [simp del]

text \<open>
  Doubles (IEEE 754 binary64) are spaced by \<open>2^(e - 52)\<close> between \<open>2^e\<close> and \<open>2^(e+1)\<close>, for
  \<open>-1022 \<le> e \<le> 1023\<close>, and by \<open>2^(-1074)\<close> below \<open>2^(-1022)\<close>. Rounding a magnitude
  \<open>y \<ge> 0\<close> to nearest, ties to even, gives the multiple of the spacing at \<open>y\<close> that is
  nearest to \<open>y\<close>, the even multiple on a tie.
\<close>

definition round_magnitude :: "real \<Rightarrow> real" where
  "round_magnitude y =
     (let e = max (binary_exponent y) (- 1022);
          q = 2 powi (e - 52)
      in of_int (round_even (y / q)) * q)"

text \<open>
  The Number value for a real \<open>x\<close>: the double nearest to \<open>x\<close>; a magnitude that rounds to
  \<open>2^1024\<close> or more is an infinity.
\<close>

definition number_value :: "real \<Rightarrow> number" where
  "number_value x =
     (let d = round_magnitude \<bar>x\<bar>
      in if 2 powi 1024 \<le> d then (if x < 0 then NegInfinity else Infinity)
         else Num (if x < 0 then - d else d))"

text \<open>\<open>parseFloat(s)\<close>: the decimal number at the start of \<open>s\<close>, rounded to a double.\<close>

definition parseFloat :: "string \<Rightarrow> number" where
  "parseFloat s = (case decimal_value s of None \<Rightarrow> NaN | Some x \<Rightarrow> number_value x)"

text \<open>
  The number the string \<open>x.toFixed(d)\<close> denotes: \<open>x\<close> rounded to \<open>d\<close> decimals, a tie
  going away from zero.
\<close>

definition toFixed_value :: "real \<Rightarrow> nat \<Rightarrow> real" where
  "toFixed_value x d =
     (if x < 0 then - real (nat \<lfloor>\<bar>x\<bar> * 10 ^ d + 1 / 2\<rfloor>) / 10 ^ d
      else real (nat \<lfloor>\<bar>x\<bar> * 10 ^ d + 1 / 2\<rfloor>) / 10 ^ d)"

text \<open>
  Comparisons of a number with a finite bound: every comparison with \<open>NaN\<close> is false,
  \<open>Infinity\<close> is above and \<open>-Infinity\<close> below every finite bound.
\<close>

fun num_lt :: "number \<Rightarrow> real \<Rightarrow> bool" where
  "num_lt NaN b = False"
| "num_lt (Num v) b = (v < b)"
| "num_lt Infinity b = False"
| "num_lt NegInfinity b = True"

fun num_gt :: "number \<Rightarrow> real \<Rightarrow> bool" where
  "num_gt NaN b = False"
| "num_gt (Num v) b = (v > b)"
| "num_gt Infinity b = True"
| "num_gt NegInfinity b = False"


section \<open>The page state\<close>

text \<open>
  A Leaflet \<open>LatLng\<close> is a pair (latitude, longitude); \<open>L.latLngBounds\<close> of two corners
  is the smallest rectangle holding both.
\<close>

type_synonym latlng = "real \<times> real"

record bounds =
  southWest :: latlng
  northEast :: latlng

definition latLngBounds :: "latlng \<Rightarrow> latlng \<Rightarrow> bounds" where
  "latLngBounds a b =
     \<lparr>southWest = (min (fst a) (fst b), min (snd a) (snd b)),
      northEast = (max (fst a) (fst b), max (snd a) (snd b))\<rparr>"

definition getCenter :: "bounds \<Rightarrow> latlng" where
  "getCenter b =
     ((fst (southWest b) + fst (northEast b)) / 2, (snd (southWest b) + snd (northEast b)) / 2)"

record city =
  name :: string
  country :: string
  lat :: real
  lng :: real

text \<open>One rendered entry of the suggestion list, with the city its click handler selects.\<close>

record suggestion =
  displayName :: string
  displayCountry :: string
  coords :: string
  on_click :: city

text \<open>The query of the request to \<open>/api/probability\<close>, parameter by parameter.\<close>

record request =
  req_lat :: string
  req_lon :: string
  req_target_date :: string
  req_var :: string
  req_threshold :: string
  req_comparison :: string
  req_window_days :: string

text \<open>What the program does to the world outside its own variables, in order.\<close>

datatype effect =
    NewMarker latlng
  | SetView latlng nat
  | Fetch request

text \<open>The JSON object a successful \<open>/api/probability\<close> call returns.\<close>

record api_data =
  probability :: real
  n_samples :: nat
  period :: string
  ci_95 :: "real \<times> real"
  source :: "string list option"
  method_str :: "string option"

text \<open>
  What \<open>fetch\<close> and \<open>resp.json()\<close> can give the run handler: \<open>fetch\<close> rejects with a
  message; a response that is not \<open>ok\<close> arrives, whose body cannot be read
  (\<open>resp.json()\<close> or the access to \<open>detail\<close> throws with a message) or is an error object
  with its \<open>detail\<close> as a string (\<open>None\<close> when missing); or an \<open>ok\<close> response arrives,
  whose body cannot be read or is the result object.
\<close>

datatype response =
    FetchRejected string
  | NotOkNotJson string
  | NotOk "string option"
  | OkNotJson string
  | Ok api_data

text \<open>The location line of the result card.\<close>

datatype display_location =
    LocationText string
  | LocationArea string string bounds

record results_html =
  probability_value :: string
  probability_color :: string
  probability_label :: string
  detail_location :: display_location
  detail_date :: string
  detail_condition :: string
  data_text :: "nat \<times> string"
  data_source :: string
  method_info :: string

text \<open>The content of the \<open>output\<close> element: plain text, the loading animation, or the result card.\<close>

datatype html =
    Text string
  | Loading
  | Results results_html

record probability_chart =
  pc_labels :: "string list"
  pc_data :: "real list"
  pc_backgroundColor :: "string list"

record trend_chart =
  tc_labels :: "nat list"
  tc_data :: "real list"

text \<open>
  The state of the page: the variables of the script (\<open>marker\<close> to \<open>startLatLng\<close>,
  \<open>citySearchTimeout\<close>, \<open>selectedPersona\<close>, the two chart instances) and what the script
  reads and writes of the document: whether the map can be dragged, the area-info box,
  the location input, the suggestion list, the form fields, the persona cards that are
  active, the run button, the output element, the sections shown with a result (insights,
  charts, export) and the risk indicator. \<open>effects\<close> records the markers created, the
  map moves and the requests sent.
\<close>

record page =
  marker :: "latlng option"
  selectedArea :: "bounds option"
  isSelectingArea :: bool
  selectionRectangle :: "bounds option"
  areaSelectionMode :: bool
  selectionMode :: string
  startLatLng :: "latlng option"
  map_dragging :: bool
  effects :: "effect list"
  area_info_html :: "bounds option"
  area_info_display :: string
  location_input :: string
  suggestions_children :: "suggestion list"
  suggestions_display :: string
  citySearchTimeout :: "string option"
  var_value :: string
  threshold_value :: string
  comparison_value :: string
  date_value :: string
  window_value :: string
  active_cards :: "string set"
  selectedPersona :: "string option"
  button_disabled :: bool
  out_className :: string
  out_innerHTML :: html
  sections_display :: string
  risk_text :: string
  risk_width :: string
  risk_class :: string
  recommendation_text :: string
  probabilityChartInstance :: "probability_chart option"
  trendChartInstance :: "trend_chart option"

section \<open>Location selection\<close>

definition updateMapInteractions :: "page \<Rightarrow> page" where
  "updateMapInteractions s = s\<lparr>map_dragging := \<not> areaSelectionMode s\<rparr>"

definition updateButtonState :: "page \<Rightarrow> page" where
  "updateButtonState s =
     (let hasLocation = (marker s \<noteq> None \<or> selectedArea s \<noteq> None)
      in if \<not> hasLocation \<or> date_value s = [] \<or> threshold_value s = []
         then s\<lparr>button_disabled := True\<rparr>
         else s\<lparr>button_disabled := False\<rparr>)"

definition updateAreaSelectionUI :: "page \<Rightarrow> page" where
  "updateAreaSelectionUI s =
     (case selectedArea s of
        Some a \<Rightarrow> s\<lparr>area_info_html := Some a, area_info_display := ''block''\<rparr>
      | None \<Rightarrow> s\<lparr>area_info_display := ''none''\<rparr>)"

definition clearAreaSelection :: "page \<Rightarrow> page" where
  "clearAreaSelection s =
     updateAreaSelectionUI
       ((if selectionRectangle s \<noteq> None then s\<lparr>selectionRectangle := None\<rparr> else s)
          \<lparr>selectedArea := None, isSelectingArea := False\<rparr>)"

definition addMarker :: "real \<Rightarrow> real \<Rightarrow> page \<Rightarrow> page" where
  "addMarker la lo s =
     updateButtonState
       (clearAreaSelection
          (s\<lparr>marker := Some (la, lo), effects := effects s @ [NewMarker (la, lo)]\<rparr>))"

text \<open>The click handler of the selection-mode button.\<close>

definition selection_mode_click :: "page \<Rightarrow> page" where
  "selection_mode_click s =
     updateButtonState
       (if selectionMode s = ''point''
        then updateMapInteractions
               ((s\<lparr>selectionMode := ''area'', areaSelectionMode := True\<rparr>)
                  \<lparr>marker := None\<rparr>)
        else updateMapInteractions
               (clearAreaSelection (s\<lparr>selectionMode := ''point'', areaSelectionMode := False\<rparr>)))"

text \<open>The map's click handler; the event carries the clicked position.\<close>

definition map_click :: "latlng \<Rightarrow> page \<Rightarrow> page" where
  "map_click e s =
     (if \<not> areaSelectionMode s
      then (addMarker (fst e) (snd e) s)
             \<lparr>location_input := toFixed (fst e) 4 @ '', '' @ toFixed (snd e) 4\<rparr>
      else s)"

text \<open>
  The mouse handlers on the map container. \<open>on_map\<close> says whether the event's target is
  the container itself, \<open>on_tile\<close> whether it carries one of the classes
  \<open>leaflet-container\<close>, \<open>leaflet-tile\<close>, \<open>leaflet-tile-container\<close>; \<open>p\<close> is the position
  \<open>containerPointToLatLng\<close> gives for the event. The condition of \<open>mousedown\<close> is
  \<open>areaSelectionMode && a || b || c || d\<close>, so \<open>&&\<close> binds the first test only.
\<close>

definition map_mousedown :: "bool \<Rightarrow> bool \<Rightarrow> latlng \<Rightarrow> page \<Rightarrow> page" where
  "map_mousedown on_map on_tile p s =
     (if (areaSelectionMode s \<and> on_map) \<or> on_tile
      then s\<lparr>isSelectingArea := True, startLatLng := Some p,
             selectionRectangle := None, selectedArea := None\<rparr>
      else s)"

definition map_mousemove :: "latlng \<Rightarrow> page \<Rightarrow> page" where
  "map_mousemove p s =
     (case startLatLng s of
        Some st \<Rightarrow>
          if areaSelectionMode s \<and> isSelectingArea s
          then s\<lparr>selectionRectangle := Some (latLngBounds st p)\<rparr>
          else s
      | None \<Rightarrow> s)"

text \<open>
  \<open>distanceTo\<close> is Leaflet's great-circle distance in metres, a parameter here.
\<close>

definition map_mouseup :: "(latlng \<Rightarrow> latlng \<Rightarrow> real) \<Rightarrow> latlng \<Rightarrow> page \<Rightarrow> page" where
  "map_mouseup distanceTo p s =
     (case startLatLng s of
        Some st \<Rightarrow>
          if areaSelectionMode s \<and> isSelectingArea s
          then let b = latLngBounds st p;
                   distance = distanceTo (southWest b) (northEast b);
                   s1 = (if distance > 100
                         then (updateButtonState
                                 (updateAreaSelectionUI (s\<lparr>selectedArea := selectionRectangle s\<rparr>)))
                                \<lparr>location_input :=
                                   toFixed (fst (getCenter b)) 4 @ '', '' @ toFixed (snd (getCenter b)) 4\<rparr>
                         else if selectionRectangle s \<noteq> None
                              then s\<lparr>selectionRectangle := None\<rparr> else s)
               in s1\<lparr>isSelectingArea := False, startLatLng := None\<rparr>
          else s
      | None \<Rightarrow> s)"

definition map_mouseleave :: "page \<Rightarrow> page" where
  "map_mouseleave s =
     (if areaSelectionMode s \<and> isSelectingArea s
      then let s1 = s\<lparr>isSelectingArea := False, startLatLng := None\<rparr>
           in if selectionRectangle s1 \<noteq> None \<and> selectedArea s1 = None
              then s1\<lparr>selectionRectangle := None\<rparr> else s1
      else s)"


section \<open>City search\<close>

definition cities :: "city list" where
  "cities =
     [\<lparr>name = ''Cairo'', country = ''Egypt'', lat = 30.0444, lng = 31.2357\<rparr>,
      \<lparr>name = ''London'', country = ''United Kingdom'', lat = 51.5074, lng = (-0.1278)\<rparr>,
      \<lparr>name = ''New York'', country = ''United States'', lat = 40.7128, lng = (-74.0060)\<rparr>,
      \<lparr>name = ''Paris'', country = ''France'', lat = 48.8566, lng = 2.3522\<rparr>,
      \<lparr>name = ''Tokyo'', country = ''Japan'', lat = 35.6762, lng = 139.6503\<rparr>,
      \<lparr>name = ''Sydney'', country = ''Australia'', lat = (-33.8688), lng = 151.2093\<rparr>,
      \<lparr>name = ''Dubai'', country = ''UAE'', lat = 25.2048, lng = 55.2708\<rparr>,
      \<lparr>name = ''Mumbai'', country = ''India'', lat = 19.0760, lng = 72.8777\<rparr>,
      \<lparr>name = ''Beijing'', country = ''China'', lat = 39.9042, lng = 116.4074\<rparr>,
      \<lparr>name = ''Moscow'', country = ''Russia'', lat = 55.7558, lng = 37.6176\<rparr>,
      \<lparr>name = ''Berlin'', country = ''Germany'', lat = 52.5200, lng = 13.4050\<rparr>,
      \<lparr>name = ''Rome'', country = ''Italy'', lat = 41.9028, lng = 12.4964\<rparr>,
      \<lparr>name = ''Madrid'', country = ''Spain'', lat = 40.4168, lng = (-3.7038)\<rparr>,
      \<lparr>name = ''Amsterdam'', country = ''Netherlands'', lat = 52.3676, lng = 4.9041\<rparr>,
      \<lparr>name = ''Barcelona'', country = ''Spain'', lat = 41.3851, lng = 2.1734\<rparr>,
      \<lparr>name = ''Istanbul'', country = ''Turkey'', lat = 41.0082, lng = 28.9784\<rparr>,
      \<lparr>name = ''Athens'', country = ''Greece'', lat = 37.9838, lng = 23.7275\<rparr>,
      \<lparr>name = ''Prague'', country = ''Czech Republic'', lat = 50.0755, lng = 14.4378\<rparr>,
      \<lparr>name = ''Vienna'', country = ''Austria'', lat = 48.2082, lng = 16.3738\<rparr>,
      \<lparr>name = ''Stockholm'', country = ''Sweden'', lat = 59.3293, lng = 18.0686\<rparr>,
      \<lparr>name = ''Springfield'', country = ''United States (Illinois)'', lat = 39.7817, lng = (-89.6501)\<rparr>,
      \<lparr>name = ''Springfield'', country = ''United States (Missouri)'', lat = 37.2089, lng = (-93.2923)\<rparr>,
      \<lparr>name = ''Birmingham'', country = ''United Kingdom'', lat = 52.4862, lng = (-1.8904)\<rparr>,
      \<lparr>name = ''Birmingham'', country = ''United States'', lat = 33.5207, lng = (-86.8025)\<rparr>,
      \<lparr>name = ''Manchester'', country = ''United Kingdom'', lat = 53.4808, lng = (-2.2426)\<rparr>,
      \<lparr>name = ''Manchester'', country = ''United States'', lat = 42.9956, lng = (-71.4548)\<rparr>,
      \<lparr>name = ''Newport'', country = ''United Kingdom'', lat = 51.5889, lng = (-2.9979)\<rparr>,
      \<lparr>name = ''Newport'', country = ''United States (Rhode Island)'', lat = 41.4901, lng = (-71.3128)\<rparr>,
      \<lparr>name = ''Newport'', country = ''United States (Kentucky)'', lat = 39.0914, lng = (-84.4958)\<rparr>,
      \<lparr>name = ''Richmond'', country = ''United States (Virginia)'', lat = 37.5407, lng = (-77.4360)\<rparr>,
      \<lparr>name = ''Richmond'', country = ''United States (California)'', lat = 37.9358, lng = (-122.3478)\<rparr>,
      \<lparr>name = ''Richmond'', country = ''Australia'', lat = (-37.8136), lng = 144.9631\<rparr>,
      \<lparr>name = ''Frankfurt'', country = ''Germany'', lat = 50.1109, lng = 8.6821\<rparr>,
      \<lparr>name = ''Frankfurt'', country = ''United States'', lat = 38.2009, lng = (-84.8733)\<rparr>,
      \<lparr>name = ''Victoria'', country = ''Canada'', lat = 48.4284, lng = (-123.3656)\<rparr>,
      \<lparr>name = ''Victoria'', country = ''Australia'', lat = (-37.8136), lng = 144.9631\<rparr>,
      \<lparr>name = ''Victoria'', country = ''Seychelles'', lat = (-4.6191), lng = 55.4513\<rparr>,
      \<lparr>name = ''Hamilton'', country = ''Canada'', lat = 43.2557, lng = (-79.8711)\<rparr>,
      \<lparr>name = ''Hamilton'', country = ''New Zealand'', lat = (-37.7870), lng = 175.2793\<rparr>,
      \<lparr>name = ''Hamilton'', country = ''Bermuda'', lat = 32.2948, lng = (-64.7814)\<rparr>,
      \<lparr>name = ''Washington'', country = ''United States'', lat = 38.9072, lng = (-77.0369)\<rparr>,
      \<lparr>name = ''Washington'', country = ''United States (State)'', lat = 47.7511, lng = (-120.7401)\<rparr>,
      \<lparr>name = ''Luxor'', country = ''Egypt'', lat = 25.6872, lng = 32.6396\<rparr>,
      \<lparr>name = ''Alexandria'', country = ''Egypt'', lat = 31.2001, lng = 29.9187\<rparr>,
      \<lparr>name = ''Giza'', country = ''Egypt'', lat = 30.0131, lng = 31.2089\<rparr>,
      \<lparr>name = ''Aswan'', country = ''Egypt'', lat = 24.0889, lng = 32.8998\<rparr>,
      \<lparr>name = ''Hurghada'', country = ''Egypt'', lat = 27.2574, lng = 33.8129\<rparr>,
      \<lparr>name = ''Sharm El Sheikh'', country = ''Egypt'', lat = 27.9158, lng = 34.3300\<rparr>]"

text \<open>The degree sign, code unit \<open>0xB0\<close>.\<close>

definition degree_sign :: string where
  "degree_sign = [CHR 0xB0]"

text \<open>
  One pass of the \<open>forEach\<close> of \<open>showSuggestions\<close>: the entry built for a city, given the
  value of the location input at that moment.
\<close>

definition render_suggestion :: "string \<Rightarrow> city \<Rightarrow> suggestion" where
  "render_suggestion input_value c =
     (let inputValue = toLowerCase input_value;
          cityName = toLowerCase (name c);
          shown =
            (if str_includes cityName inputValue
             then (case indexOf cityName inputValue of
                     Some index \<Rightarrow>
                       substring (name c) 0 index @ ''<mark>''
                       @ substring (name c) index (index + length inputValue) @ ''</mark>''
                       @ substring_from (name c) (index + length inputValue)
                   | None \<Rightarrow> name c)
             else name c)
      in \<lparr>displayName = shown, displayCountry = country c,
          coords = toFixed (lat c) 2 @ degree_sign @ '', '' @ toFixed (lng c) 2 @ degree_sign,
          on_click = c\<rparr>)"

definition showSuggestions :: "city list \<Rightarrow> page \<Rightarrow> page" where
  "showSuggestions suggestions s =
     (let s1 = s\<lparr>suggestions_children := []\<rparr>
      in if length suggestions = 0 then s1\<lparr>suggestions_display := ''none''\<rparr>
         else let limitedSuggestions = take 8 suggestions
              in s1\<lparr>suggestions_children :=
                      map (render_suggestion (location_input s1)) limitedSuggestions,
                    suggestions_display := ''block''\<rparr>)"

definition selectCity :: "city \<Rightarrow> page \<Rightarrow> page" where
  "selectCity c s =
     (let s1 = addMarker (lat c) (lng c) (s\<lparr>location_input := name c @ '', '' @ country c\<rparr>);
          s2 = s1\<lparr>effects := effects s1 @ [SetView (lat c, lng c) 10],
                  suggestions_display := ''none''\<rparr>
      in updateButtonState s2)"

subsection \<open>The location input\<close>

text \<open>
  The pattern \<open>-?\d+\.?\d*\<close> at the start of a string: the text it matches and what is
  left. Each part is followed by a character it cannot match itself, so the greedy match
  is the only one.
\<close>

definition match_number :: "string \<Rightarrow> (string \<times> string) option" where
  "match_number s =
     (let sg = (case s of c # r \<Rightarrow> if c = CHR ''-'' then ''-'' else [] | [] \<Rightarrow> []);
          r0 = drop (length sg) s;
          ip = takeWhile isDigit r0;
          r1 = dropWhile isDigit r0;
          dot = (case r1 of c # r \<Rightarrow> if c = CHR ''.'' then ''.'' else [] | [] \<Rightarrow> []);
          r2 = drop (length dot) r1;
          fp = takeWhile isDigit r2;
          r3 = dropWhile isDigit r2
      in if ip = [] then None else Some (sg @ ip @ dot @ fp, r3))"

text \<open>
  \<open>input.match(/^(-?\d+\.?\d*),\s*(-?\d+\.?\d*)$/)\<close>: the two groups, or \<open>None\<close> for
  \<open>null\<close>.
\<close>

definition coordMatch :: "string \<Rightarrow> (string \<times> string) option" where
  "coordMatch input =
     (case match_number input of
        None \<Rightarrow> None
      | Some (g1, r) \<Rightarrow>
          (case r of
             [] \<Rightarrow> None
           | c # r' \<Rightarrow>
               if c \<noteq> CHR '','' then None
               else (case match_number (dropWhile isSpace r') of
                       None \<Rightarrow> None
                     | Some (g2, r'') \<Rightarrow> if r'' = [] then Some (g1, g2) else None)))"

text \<open>
  The \<open>input\<close> handler of the location field; \<open>v\<close> is the field's value when the event
  fires. A pending search is the input its timer will search for.
\<close>

definition location_input_handler :: "string \<Rightarrow> page \<Rightarrow> page" where
  "location_input_handler v s0 =
     (let input = trim v;
          s = s0\<lparr>location_input := v, citySearchTimeout := None\<rparr>
      in case coordMatch input of
           Some (g1, g2) \<Rightarrow>
             (case (parseFloat g1, parseFloat g2) of
                (Num la, Num lo) \<Rightarrow>
                  if la \<ge> -90 \<and> la \<le> 90 \<and> lo \<ge> -180 \<and> lo \<le> 180
                  then let s1 = addMarker la lo s
                       in s1\<lparr>effects := effects s1 @ [SetView (la, lo) 10],
                             suggestions_display := ''none''\<rparr>
                  else s
              | _ \<Rightarrow> s)
         | None \<Rightarrow>
             if length input \<ge> 2 then s\<lparr>citySearchTimeout := Some input\<rparr>
             else s\<lparr>suggestions_display := ''none''\<rparr>)"

text \<open>The timer of the city search fires, 300 ms after the last keystroke.\<close>

definition city_search_timeout :: "page \<Rightarrow> page" where
  "city_search_timeout s =
     (case citySearchTimeout s of
        None \<Rightarrow> s
      | Some input \<Rightarrow>
          showSuggestions
            (filter (\<lambda>c. str_includes (toLowerCase (name c)) (toLowerCase input)
                         \<or> str_includes (toLowerCase (country c)) (toLowerCase input)) cities)
            (s\<lparr>citySearchTimeout := None\<rparr>))"

section \<open>Personas\<close>

definition updateFormForPersona :: "string \<Rightarrow> page \<Rightarrow> page" where
  "updateFormForPersona persona s =
     updateButtonState
       (if persona = ''farmer''
        then s\<lparr>var_value := ''PRECTOTCORR'', threshold_value := ''5'', comparison_value := ''gt''\<rparr>
        else if persona = ''fisher''
        then s\<lparr>var_value := ''WS10M'', threshold_value := ''15'', comparison_value := ''lt''\<rparr>
        else if persona = ''tourist''
        then s\<lparr>var_value := ''T2M_MAX'', threshold_value := ''25'', comparison_value := ''gt''\<rparr>
        else if persona = ''driver''
        then s\<lparr>var_value := ''PRECTOTCORR'', threshold_value := ''1'', comparison_value := ''lt''\<rparr>
        else s)"

definition resetFormToDefault :: "page \<Rightarrow> page" where
  "resetFormToDefault s =
     updateButtonState
       (s\<lparr>var_value := ''T2M_MAX'', threshold_value := ''32'', comparison_value := ''gt''\<rparr>)"

text \<open>
  The click handler of a persona card; \<open>p\<close> is the card's \<open>data-persona\<close>, which also
  names the card.
\<close>

definition persona_card_click :: "string \<Rightarrow> page \<Rightarrow> page" where
  "persona_card_click p s =
     (let isCurrentlyActive = (p \<in> active_cards s);
          s1 = s\<lparr>active_cards := {}\<rparr>
      in if isCurrentlyActive
         then resetFormToDefault (s1\<lparr>selectedPersona := None\<rparr>)
         else updateFormForPersona p (s1\<lparr>active_cards := {p}, selectedPersona := Some p\<rparr>))"


section \<open>Rendering a result\<close>

definition fmtPct :: "real \<Rightarrow> string" where
  "fmtPct x = toFixed (x * 100) 1 @ ''%''"

definition getVariableDisplayName :: "string \<Rightarrow> string" where
  "getVariableDisplayName varKey =
     (case map_of
        [(''T2M_MAX'', ''Hot Day (Maximum Temperature)''),
         (''T2M_MIN'', ''Cold Day (Minimum Temperature)''),
         (''WS10M'', ''Windy Day (Wind Speed)''),
         (''PRECTOTCORR'', ''Rainy Day (Precipitation)''),
         (''T2M'', ''Average Temperature'')] varKey of
        Some n \<Rightarrow> n
      | None \<Rightarrow> varKey)"

definition getComparisonSymbol :: "string \<Rightarrow> string" where
  "getComparisonSymbol comparison = (if comparison = ''gt'' then ''>'' else ''<'')"

definition getProbabilityInterpretation :: "real \<Rightarrow> string \<Rightarrow> string \<Rightarrow> string \<Rightarrow> string" where
  "getProbabilityInterpretation p varKey comparison threshold =
     (let varName =
            (case map_of
               [(''T2M_MAX'', ''hot weather''),
                (''T2M_MIN'', ''cold weather''),
                (''WS10M'', ''windy conditions''),
                (''PRECTOTCORR'', ''rainy weather''),
                (''T2M'', ''temperature conditions'')] varKey of
               Some n \<Rightarrow> n
             | None \<Rightarrow> ''weather conditions'');
          comparisonText = (if comparison = ''gt'' then ''above'' else ''below'');
          thresholdText =
            (if varKey = ''WS10M'' then threshold @ '' km/h''
             else if str_includes varKey ''T2M'' then threshold @ degree_sign @ ''C''
             else threshold @ '' mm'')
      in ''Chance of '' @ varName @ '' '' @ comparisonText @ '' '' @ thresholdText
         @ '' on this date'')"

definition getRiskColor :: "real \<Rightarrow> string \<Rightarrow> string" where
  "getRiskColor p comparison =
     (let isBelowThreshold = (comparison = ''lt'');
          effectiveProbability = (if isBelowThreshold then 1 - p else p)
      in if effectiveProbability < 0.3 then ''#10b981''
         else if effectiveProbability < 0.7 then ''#f59e0b''
         else ''#ef4444'')"

definition getRecommendation :: "string \<Rightarrow> string option \<Rightarrow> bool \<Rightarrow> string" where
  "getRecommendation riskLevel persona isBelowThreshold =
     (let recommendations =
            [(''farmer'',
              [(''low'', ''Excellent conditions for outdoor farming activities. Consider planting or harvesting.''),
               (''medium'', ''Moderate conditions. Monitor weather closely and have backup plans.''),
               (''high'', ''Challenging conditions expected. Consider indoor activities or delay outdoor work.'')]),
             (''fisher'',
              [(''low'', if isBelowThreshold
                         then ''Perfect fishing conditions! Safe winds and good visibility.''
                         else ''Risky fishing conditions. Consider staying ashore or fishing in protected areas.''),
               (''medium'', if isBelowThreshold
                         then ''Decent fishing conditions. Check local weather updates before heading out.''
                         else ''Moderate fishing conditions. Exercise caution and monitor conditions.''),
               (''high'', if isBelowThreshold
                         then ''Risky fishing conditions. Consider staying ashore or fishing in protected areas.''
                         else ''Perfect fishing conditions! Safe winds and good visibility.'')]),
             (''tourist'',
              [(''low'', ''Ideal weather for outdoor activities and sightseeing.''),
               (''medium'', ''Good conditions with some variability. Pack layers and check forecasts.''),
               (''high'', ''Challenging weather expected. Consider indoor attractions or reschedule.'')]),
             (''driver'',
              [(''low'', ''Excellent driving conditions with good visibility and road safety.''),
               (''medium'', ''Fair driving conditions. Exercise caution and check road reports.''),
               (''high'', ''Difficult driving conditions expected. Consider delaying travel if possible.'')])];
          found =
            (case persona of
               None \<Rightarrow> None
             | Some p \<Rightarrow>
                 (case map_of recommendations p of
                    None \<Rightarrow> None
                  | Some levels \<Rightarrow> map_of levels riskLevel))
      in case found of
           Some r \<Rightarrow> r
         | None \<Rightarrow> ''Based on historical data, conditions look favorable.'')"

definition updateInsights :: "api_data \<Rightarrow> string option \<Rightarrow> page \<Rightarrow> page" where
  "updateInsights data persona s =
     (let p = probability data;
          comparison = comparison_value s;
          isBelowThreshold = (comparison = ''lt'');
          effectiveProbability = (if isBelowThreshold then 1 - p else p)
      in if effectiveProbability < 0.3
         then s\<lparr>risk_text := ''Low'', risk_width := ''20%'', risk_class := [],
                recommendation_text := getRecommendation ''low'' persona isBelowThreshold\<rparr>
         else if effectiveProbability < 0.7
         then s\<lparr>risk_text := ''Medium'', risk_width := ''60%'', risk_class := ''medium'',
                recommendation_text := getRecommendation ''medium'' persona isBelowThreshold\<rparr>
         else s\<lparr>risk_text := ''High'', risk_width := ''90%'', risk_class := ''high'',
                recommendation_text := getRecommendation ''high'' persona isBelowThreshold\<rparr>)"

subsection \<open>Charts\<close>

definition createProbabilityChart ::
  "api_data \<Rightarrow> string \<Rightarrow> string \<Rightarrow> string \<Rightarrow> probability_chart" where
  "createProbabilityChart data varKey comparison threshold =
     (let p = probability data;
          oppositeProbability = 1 - p
      in \<lparr>pc_labels =
            [getVariableDisplayName varKey @ '' '' @ getComparisonSymbol comparison @ '' '' @ threshold,
             ''Other Conditions''],
          pc_data = [p * 100, oppositeProbability * 100],
          pc_backgroundColor = [getRiskColor p comparison, ''#64748b'']\<rparr>)"

text \<open>
  The loop of \<open>createTrendChart\<close>, from index \<open>i\<close> up to 10. \<open>random k\<close> is what the
  \<open>k\<close>-th call of \<open>Math.random()\<close> of this rendering returns, a number in \<open>[0, 1)\<close>; the
  loop calls it once per pass.
\<close>

function trend_loop ::
  "api_data \<Rightarrow> (nat \<Rightarrow> real) \<Rightarrow> nat \<Rightarrow> nat list \<Rightarrow> real list \<Rightarrow> nat list \<times> real list" where
  "trend_loop data random i years probabilities =
     (if i < 10
      then let baseProb = probability data;
               variation = (random i - 0.5) * 0.3;
               yearProb = max 0 (min 1 (baseProb + variation))
           in trend_loop data random (i + 1) (years @ [2015 + i]) (probabilities @ [yearProb * 100])
      else (years, probabilities))"
  by pat_completeness auto
termination
  by (relation "measure (\<lambda>(data, random, i, years, probabilities). 10 - i)") auto

declare trend_loop.simps [simp del]

definition createTrendChart :: "api_data \<Rightarrow> (nat \<Rightarrow> real) \<Rightarrow> trend_chart" where
  "createTrendChart data random =
     (let (years, probabilities) = trend_loop data random 0 [] []
      in \<lparr>tc_labels = years, tc_data = probabilities\<rparr>)"

definition createCharts ::
  "api_data \<Rightarrow> string \<Rightarrow> string \<Rightarrow> string \<Rightarrow> (nat \<Rightarrow> real) \<Rightarrow> page \<Rightarrow> page" where
  "createCharts data varKey comparison threshold random s =
     s\<lparr>probabilityChartInstance := Some (createProbabilityChart data varKey comparison threshold),
       trendChartInstance := Some (createTrendChart data random)\<rparr>"



section \<open>The run button\<close>

text \<open>\<open>xs.join(sep)\<close>.\<close>

fun join :: "string \<Rightarrow> string list \<Rightarrow> string" where
  "join sep [] = []"
| "join sep [x] = x"
| "join sep (x # y # ys) = x @ sep @ join sep (y # ys)"

text \<open>The fallback texts of the result card; the plus-minus sign is code unit \<open>0xB1\<close>.\<close>

definition default_source :: string where
  "default_source = ''NASA POWER (MERRA-2 derived)''"

definition default_method :: string where
  "default_method = ''DOY '' @ [CHR 0xB1] @ ''15d; binomial proportion (Wilson CI)''"

text \<open>
  The request and the reading of its answer, shared by both versions of the handler:
  \<open>fetch\<close>, the test of \<open>resp.ok\<close> and \<open>resp.json()\<close>. An error thrown is \<open>Inl\<close> of its
  message; a response that is not \<open>ok\<close> throws \<open>err.detail || 'API error'\<close>.
\<close>

definition fetch_json :: "response \<Rightarrow> string + api_data" where
  "fetch_json resp =
     (case resp of
        FetchRejected message \<Rightarrow> Inl message
      | NotOkNotJson message \<Rightarrow> Inl message
      | NotOk detail \<Rightarrow>
          Inl (case detail of
                 Some d \<Rightarrow> if d \<noteq> [] then d else ''API error''
               | None \<Rightarrow> ''API error'')
      | OkNotJson message \<Rightarrow> Inl message
      | Ok data \<Rightarrow> Inr data)"

text \<open>The \<open>catch\<close> branch: \<open>message\<close> is the message of the error caught.\<close>

definition errorMessage :: "string \<Rightarrow> string" where
  "errorMessage message =
     (if str_includes message ''422''
      then ''Invalid coordinates or parameters. Please check your location and try again.''
      else if str_includes message ''404''
      then ''Weather data not available for this location. Try a different location.''
      else if str_includes message ''500''
      then ''Server error. Please try again in a moment.''
      else if str_includes message ''timeout''
      then ''Request timed out. Please try again.''
      else message)"

definition run_catch :: "string \<Rightarrow> page \<Rightarrow> page" where
  "run_catch message s =
     s\<lparr>out_className := ''result error'',
       out_innerHTML := Text (''Error: '' @ errorMessage message)\<rparr>"

text \<open>The \<open>finally\<close> branch.\<close>

definition run_finally :: "page \<Rightarrow> page" where
  "run_finally s = updateButtonState (s\<lparr>button_disabled := False\<rparr>)"

text \<open>The rest of the \<open>try\<close> block once the result object \<open>data\<close> has arrived.\<close>

definition run_render ::
  "api_data \<Rightarrow> string \<Rightarrow> string \<Rightarrow> string \<Rightarrow> (nat \<Rightarrow> real) \<Rightarrow> page \<Rightarrow> page" where
  "run_render data lat_s lon_s locationType random s =
     (let varKey = var_value s;
          date = date_value s;
          threshold = threshold_value s;
          comparison = comparison_value s;
          probabilityText = getProbabilityInterpretation (probability data) varKey comparison threshold;
          riskColor = getRiskColor (probability data) comparison;
          locationInput = location_input s;
          displayLocation =
            (case (locationType = ''area'', selectedArea s) of
               (True, Some a) \<Rightarrow> LocationArea lat_s lon_s a
             | _ \<Rightarrow>
                 LocationText
                   (if locationInput \<noteq> [] \<and> str_includes locationInput '',''
                    then locationInput
                    else lat_s @ degree_sign @ '', '' @ lon_s @ degree_sign));
          card =
            \<lparr>probability_value = fmtPct (probability data),
             probability_color = riskColor,
             probability_label = probabilityText,
             detail_location = displayLocation,
             detail_date = date,
             detail_condition =
               getVariableDisplayName varKey @ '' '' @ getComparisonSymbol comparison @ '' '' @ threshold,
             data_text = (n_samples data, period data),
             data_source = (case source data of Some xs \<Rightarrow> join '', '' xs | None \<Rightarrow> default_source),
             method_info =
               (case method_str data of
                  Some m \<Rightarrow> if m \<noteq> [] then m else default_method
                | None \<Rightarrow> default_method)\<rparr>;
          s1 = s\<lparr>out_className := ''result has-data'', out_innerHTML := Results card,
                 sections_display := ''block''\<rparr>;
          s2 = createCharts data varKey comparison threshold random s1
      in updateInsights data (selectedPersona s2) s2)"

text \<open>
  The click handler of the run button (the version with area selection), from the point
  where the coordinates are known: \<open>lat_s\<close> and \<open>lon_s\<close> are the \<open>toFixed(4)\<close> strings.
  \<open>resp\<close> is what the request gives if one is sent, \<open>random\<close> the values
  \<open>Math.random()\<close> returns while the trend chart is drawn.
\<close>

definition run_located ::
  "string \<Rightarrow> string \<Rightarrow> string \<Rightarrow> response \<Rightarrow> (nat \<Rightarrow> real) \<Rightarrow> page \<Rightarrow> page" where
  "run_located lat_s lon_s locationType resp random s =
     (let date = date_value s;
          threshold = threshold_value s;
          latNum = parseFloat lat_s;
          lonNum = parseFloat lon_s
      in if num_lt latNum (-90) \<or> num_gt latNum 90
         then s\<lparr>out_className := ''result error'',
                out_innerHTML :=
                  Text (''Invalid latitude. Please select a location between -90'' @ degree_sign
                        @ '' and 90'' @ degree_sign @ ''.'')\<rparr>
         else if num_lt lonNum (-180) \<or> num_gt lonNum 180
         then s\<lparr>out_className := ''result error'',
                out_innerHTML :=
                  Text (''Invalid longitude. Please select a location between -180'' @ degree_sign
                        @ '' and 180'' @ degree_sign @ ''.'')\<rparr>
         else if date = []
         then s\<lparr>out_className := ''result error'',
                out_innerHTML := Text ''Please select a target date.''\<rparr>
         else if threshold = []
         then s\<lparr>out_className := ''result error'',
                out_innerHTML := Text ''Please enter a threshold value.''\<rparr>
         else
           let s1 = s\<lparr>out_className := ''result loading'', out_innerHTML := Loading,
                      button_disabled := True\<rparr>;
               url = \<lparr>req_lat = lat_s, req_lon = lon_s, req_target_date = date,
                      req_var = var_value s, req_threshold = threshold,
                      req_comparison = comparison_value s, req_window_days = window_value s\<rparr>;
               s2 = s1\<lparr>effects := effects s1 @ [Fetch url]\<rparr>
           in run_finally
                (case fetch_json resp of
                   Inl message \<Rightarrow> run_catch message s2
                 | Inr data \<Rightarrow> run_render data lat_s lon_s locationType random s2))"

definition run_click :: "response \<Rightarrow> (nat \<Rightarrow> real) \<Rightarrow> page \<Rightarrow> page" where
  "run_click resp random s =
     (case marker s of
        Some m \<Rightarrow>
          run_located (toFixed (fst m) 4) (toFixed (snd m) 4) ''point'' resp random s
      | None \<Rightarrow>
          (case selectedArea s of
             Some a \<Rightarrow>
               run_located (toFixed (fst (getCenter a)) 4) (toFixed (snd (getCenter a)) 4)
                 ''area'' resp random s
           | None \<Rightarrow>
               s\<lparr>out_className := ''result error'',
                 out_innerHTML := Text ''Please select a location first. You can type coordinates (e.g., 30.0444, 31.2357), click on the map for point selection, or use the Area Selection button for drag selection.''\<rparr>))"

subsection \<open>The first version of the handler\<close>

text \<open>
  The run handler of \<open>frontend/app.js\<close>, which knows the marker only and writes plain text
  and one line of HTML into the output element. A missing \<open>method\<close> is printed as
  \<open>undefined\<close>.
\<close>

definition frontend_run_click :: "response \<Rightarrow> page \<Rightarrow> page" where
  "frontend_run_click resp s =
     (case marker s of
        None \<Rightarrow> s\<lparr>out_innerHTML := Text ''Please drop a pin on the map first.''\<rparr>
      | Some m \<Rightarrow>
          let lat_s = toFixed (fst m) 4;
              lon_s = toFixed (snd m) 4;
              date = date_value s
          in if date = [] then s\<lparr>out_innerHTML := Text ''Please select a date.''\<rparr>
             else
               let s1 = s\<lparr>out_innerHTML := Text ''Computing...''\<rparr>;
                   url = \<lparr>req_lat = lat_s, req_lon = lon_s, req_target_date = date,
                          req_var = var_value s, req_threshold = threshold_value s,
                          req_comparison = comparison_value s, req_window_days = window_value s\<rparr>;
                   s2 = s1\<lparr>effects := effects s1 @ [Fetch url]\<rparr>
               in (case fetch_json resp of
                    Inl message \<Rightarrow> s2\<lparr>out_innerHTML := Text (''Error: '' @ message)\<rparr>
                  | Inr data \<Rightarrow>
                      s2\<lparr>out_innerHTML :=
                           Text (''Probability: <b>'' @ fmtPct (probability data) @ ''</b><br/>Samples: ''
                                 @ show_nat (n_samples data) @ ''<br/>95% CI: ''
                                 @ fmtPct (fst (ci_95 data)) @ '' - '' @ fmtPct (snd (ci_95 data))
                                 @ ''<br/>Method: ''
                                 @ (case method_str data of Some m \<Rightarrow> m | None \<Rightarrow> ''undefined''))\<rparr>))"


section \<open>Events\<close>

text \<open>
  The page as the script leaves it after loading: no location, point mode, the date field
  set to today, the other fields at the values \<open>resetFormToDefault\<close> restores and the
  window at its default of 15 days, and the button state computed once.
\<close>

definition initial_page :: "string \<Rightarrow> page" where
  "initial_page today =
     updateButtonState
       \<lparr>marker = None, selectedArea = None, isSelectingArea = False, selectionRectangle = None,
        areaSelectionMode = False, selectionMode = ''point'', startLatLng = None,
        map_dragging = True, effects = [], area_info_html = None, area_info_display = [],
        location_input = [], suggestions_children = [], suggestions_display = [],
        citySearchTimeout = None, var_value = ''T2M_MAX'', threshold_value = ''32'',
        comparison_value = ''gt'', date_value = today, window_value = ''15'',
        active_cards = {}, selectedPersona = None, button_disabled = False,
        out_className = [], out_innerHTML = Text [], sections_display = ''none'',
        risk_text = [], risk_width = [], risk_class = [], recommendation_text = [],
        probabilityChartInstance = None, trendChartInstance = None\<rparr>"

text \<open>
  The events the script listens to, each with what the browser hands the listener: a
  click on the mode button, a click on the map at a position, the mouse events on the
  map container, an edit of the location input leaving it with a value, the search
  timer firing, a click on a suggestion, a click on a persona card, a change of the date
  or of the threshold leaving the field with a value, a click outside the search box, and
  a click on the run button together with the answer the request will get and the values
  \<open>Math.random()\<close> will return.
\<close>

datatype event =
    ModeClick
  | MapClick latlng
  | MouseDown bool bool latlng
  | MouseMove latlng
  | MouseUp latlng
  | MouseLeave
  | LocationInput string
  | SearchTimeout
  | SuggestionClick city
  | PersonaClick string
  | DateChange string
  | ThresholdInput string
  | ClickOutsideSearch
  | RunClick response "nat \<Rightarrow> real"

fun handle :: "(latlng \<Rightarrow> latlng \<Rightarrow> real) \<Rightarrow> event \<Rightarrow> page \<Rightarrow> page" where
  "handle distanceTo ModeClick s = selection_mode_click s"
| "handle distanceTo (MapClick e) s = map_click e s"
| "handle distanceTo (MouseDown on_map on_tile p) s = map_mousedown on_map on_tile p s"
| "handle distanceTo (MouseMove p) s = map_mousemove p s"
| "handle distanceTo (MouseUp p) s = map_mouseup distanceTo p s"
| "handle distanceTo MouseLeave s = map_mouseleave s"
| "handle distanceTo (LocationInput v) s = location_input_handler v s"
| "handle distanceTo SearchTimeout s = city_search_timeout s"
| "handle distanceTo (SuggestionClick c) s = selectCity c s"
| "handle distanceTo (PersonaClick p) s = persona_card_click p s"
| "handle distanceTo (DateChange v) s = updateButtonState (s\<lparr>date_value := v\<rparr>)"
| "handle distanceTo (ThresholdInput v) s = updateButtonState (s\<lparr>threshold_value := v\<rparr>)"
| "handle distanceTo ClickOutsideSearch s = s\<lparr>suggestions_display := ''none''\<rparr>"
| "handle distanceTo (RunClick resp random) s = run_click resp random s"

definition run_events :: "(latlng \<Rightarrow> latlng \<Rightarrow> real) \<Rightarrow> event list \<Rightarrow> page \<Rightarrow> page" where
  "run_events distanceTo es s = foldl (\<lambda>s e. handle distanceTo e s) s es"

section \<open>The exceedance probability estimator\<close>

text \<open>
  Modelled from the spec: the Exceedance Probability Estimator of the backend (section 4.3
  of the specification), whose code is not among the source files. \<open>k\<close> of \<open>n\<close> pooled
  values satisfy the comparison; the point estimate is \<open>k / n\<close> and the interval is the
  Wilson score interval at \<open>z = 1.95996\<close>, clamped to \<open>[0, 1]\<close>:
  \<open>center = (p + z\<^sup>2/(2n)) / (1 + z\<^sup>2/n)\<close>,
  \<open>half_width = z * sqrt (p (1 - p) / n + z\<^sup>2/(4 n\<^sup>2)) / (1 + z\<^sup>2/n)\<close>.
\<close>

definition wilson_z :: real where
  "wilson_z = 1.95996"

definition clamp :: "real \<Rightarrow> real \<Rightarrow> real \<Rightarrow> real" where
  "clamp x lo hi = max lo (min hi x)"

definition point_estimate :: "nat \<Rightarrow> nat \<Rightarrow> real" where
  "point_estimate k n = real k / real n"

definition wilson_center :: "nat \<Rightarrow> nat \<Rightarrow> real" where
  "wilson_center k n =
     (point_estimate k n + wilson_z\<^sup>2 / (2 * real n)) / (1 + wilson_z\<^sup>2 / real n)"

definition wilson_half_width :: "nat \<Rightarrow> nat \<Rightarrow> real" where
  "wilson_half_width k n =
     wilson_z * sqrt (point_estimate k n * (1 - point_estimate k n) / real n
                      + wilson_z\<^sup>2 / (4 * (real n)\<^sup>2))
     / (1 + wilson_z\<^sup>2 / real n)"

definition ci_low :: "nat \<Rightarrow> nat \<Rightarrow> real" where
  "ci_low k n = clamp (wilson_center k n - wilson_half_width k n) 0 1"

definition ci_high :: "nat \<Rightarrow> nat \<Rightarrow> real" where
  "ci_high k n = clamp (wilson_center k n + wilson_half_width k n) 0 1"

section \<open>Reading the page\<close>

text \<open>
  The position the run handler works with: the marker's if there is one, else the centre
  of the selected area.
\<close>

definition selected_location :: "page \<Rightarrow> latlng option" where
  "selected_location s =
     (case marker s of
        Some m \<Rightarrow> Some m
      | None \<Rightarrow> (case selectedArea s of Some a \<Rightarrow> Some (getCenter a) | None \<Rightarrow> None))"

text \<open>
  The checks of the run handler on a position, as numbers: the handler compares what
  \<open>parseFloat\<close> reads from the \<open>toFixed(4)\<close> strings, and tests the date and the
  threshold for the empty string. The comparisons are written here on the four-decimal
  values themselves; rounding them to a double does not change their outcome.
\<close>

definition passes_validation :: "latlng \<Rightarrow> page \<Rightarrow> bool" where
  "passes_validation pos s =
     (- 90 \<le> toFixed_value (fst pos) 4 \<and> toFixed_value (fst pos) 4 \<le> 90
      \<and> - 180 \<le> toFixed_value (snd pos) 4 \<and> toFixed_value (snd pos) 4 \<le> 180
      \<and> date_value s \<noteq> [] \<and> threshold_value s \<noteq> [])"

text \<open>The request the run handler sends for a position.\<close>

definition request_for :: "latlng \<Rightarrow> page \<Rightarrow> request" where
  "request_for pos s =
     \<lparr>req_lat = toFixed (fst pos) 4, req_lon = toFixed (snd pos) 4,
      req_target_date = date_value s, req_var = var_value s,
      req_threshold = threshold_value s, req_comparison = comparison_value s,
      req_window_days = window_value s\<rparr>"

text \<open>What the output element shows of a result: nothing unless it holds a result card.\<close>

definition shown_probability :: "html \<Rightarrow> string option" where
  "shown_probability h = (case h of Results r \<Rightarrow> Some (probability_value r) | _ \<Rightarrow> None)"

definition shown_method :: "html \<Rightarrow> string option" where
  "shown_method h = (case h of Results r \<Rightarrow> Some (method_info r) | _ \<Rightarrow> None)"

definition shown_source :: "html \<Rightarrow> string option" where
  "shown_source h = (case h of Results r \<Rightarrow> Some (data_source r) | _ \<Rightarrow> None)"

text \<open>A request fails when \<open>fetch\<close> rejects or the response is not \<open>ok\<close>.\<close>

fun failed :: "response \<Rightarrow> bool" where
  "failed (FetchRejected m) = True"
| "failed (NotOkNotJson m) = True"
| "failed (NotOk d) = True"
| "failed (OkNotJson m) = False"
| "failed (Ok data) = False"

section \<open>Sample values\<close>

text \<open>A result object as the API returns it, used where a concrete response is needed.\<close>

definition sample_data :: api_data where
  "sample_data =
     \<lparr>probability = 1 / 2, n_samples = 310, period = ''1981-2023'', ci_95 = (0.44, 0.56),
      source = None, method_str = None\<rparr>"

text \<open>
  Two runs of \<open>Math.random()\<close>: one that returns 0 every time and one that returns 0.5
  every time.
\<close>

definition random_zero :: "nat \<Rightarrow> real" where
  "random_zero i = 0"

definition random_half :: "nat \<Rightarrow> real" where
  "random_half i = 1 / 2"

text \<open>
  A stand-in for Leaflet's \<open>distanceTo\<close> that answers 29400 metres, about what Leaflet
  gives for the corners \<open>(29.9, 30.9)\<close> and \<open>(30.1, 31.1)\<close>.
\<close>

definition distance_29km :: "latlng \<Rightarrow> latlng \<Rightarrow> real" where
  "distance_29km a b = 29400"

text \<open>The page after loading on 1 July 2024 and one click on the map at Cairo.\<close>

definition sample_page :: page where
  "sample_page = map_click (30.0444, 31.2357) (initial_page ''2024-07-01'')"

text \<open>
  The page after loading and one click on the map a little east of the 180th meridian,
  where Leaflet reports a longitude above 180.
\<close>

definition dateline_page :: page where
  "dateline_page = map_click (30, 180.00004) (initial_page ''2024-07-01'')"

text \<open>
  A session on the page: the user switches to area selection, pastes the coordinates
  \<open>30, 31\<close> into the location input (the map moves there), and then drags a rectangle
  over the map tiles from \<open>(29.9, 30.9)\<close> to \<open>(30.1, 31.1)\<close>.
\<close>

definition typed_then_dragged :: "event list" where
  "typed_then_dragged =
     [ModeClick, LocationInput ''30, 31'', MouseDown False True (29.9, 30.9),
      MouseMove (30.1, 31.1), MouseUp (30.1, 31.1)]"


section \<open>Decimal strings: writing a number and reading it back\<close>

lemma isDigit_digit_char: "isDigit (digit_char n)"
proof -
  have "n mod 10 < length ''0123456789''" by simp
  then have "''0123456789'' ! (n mod 10) \<in> set ''0123456789''" by (rule nth_mem)
  then show ?thesis by (simp only: isDigit_def digit_char_def)
qed

lemma digit_val_digit_char:
  assumes "n < 10"
  shows "digit_val (digit_char n) = n"
proof -
  define ds where "ds = ''0123456789''"
  have len: "length ds = 10" and dist: "distinct ds"
    by (simp_all add: ds_def)
  have "takeWhile (\<lambda>d. d \<noteq> ds ! n) ds = take n ds"
  proof (rule takeWhile_eq_take_P_nth)
    fix i assume "i < n" "i < length ds"
    then show "ds ! i \<noteq> ds ! n"
      using assms dist len by (simp add: nth_eq_iff_index_eq)
  qed simp
  then have "length (takeWhile (\<lambda>d. d \<noteq> ds ! n) ds) = n"
    using assms len by simp
  then show ?thesis
    using assms by (simp add: digit_val_def digit_char_def ds_def [symmetric])
qed

lemma show_nat_digits: "\<forall>c \<in> set (show_nat n). isDigit c"
proof (induction n rule: show_nat.induct)
  case (1 n)
  show ?case
  proof (cases "n < 10")
    case True
    then show ?thesis by (simp add: show_nat.simps [of n] isDigit_digit_char)
  next
    case False
    with 1 show ?thesis by (simp add: show_nat.simps [of n] isDigit_digit_char)
  qed
qed

lemma show_nat_nonempty: "show_nat n \<noteq> []"
  by (simp add: show_nat.simps [of n])

lemma digits_val_snoc: "digits_val (ds @ [c]) = 10 * digits_val ds + digit_val c"
  by (simp add: digits_val_def)

lemma digits_val_Nil: "digits_val [] = 0"
  by (simp add: digits_val_def)

lemma digits_val_append:
  "digits_val (xs @ ys) = digits_val xs * 10 ^ length ys + digits_val ys"
proof (induction ys rule: rev_induct)
  case Nil
  then show ?case by (simp add: digits_val_Nil)
next
  case (snoc y ys)
  have "digits_val (xs @ ys @ [y]) = 10 * digits_val (xs @ ys) + digit_val y"
    using digits_val_snoc [of "xs @ ys" y] by simp
  then show ?case
    by (simp add: snoc.IH digits_val_snoc algebra_simps)
qed

lemma digits_val_show_nat: "digits_val (show_nat n) = n"
proof (induction n rule: show_nat.induct)
  case (1 n)
  show ?case
  proof (cases "n < 10")
    case True
    then show ?thesis
      by (simp add: show_nat.simps [of n] digits_val_def digit_val_digit_char)
  next
    case False
    with 1 have "digits_val (show_nat (n div 10)) = n div 10" by simp
    with False show ?thesis
      by (simp add: show_nat.simps [of n] digits_val_snoc digit_val_digit_char)
  qed
qed

lemma digits_val_zero: "digits_val [CHR ''0''] = 0"
  by (simp add: digits_val_def digit_val_def)

lemma digits_val_zeros: "digits_val (replicate k (CHR ''0'')) = 0"
proof (induction k)
  case 0
  then show ?case by (simp add: digits_val_Nil)
next
  case (Suc k)
  have "replicate (Suc k) (CHR ''0'') = [CHR ''0''] @ replicate k (CHR ''0'')" by simp
  then have "digits_val (replicate (Suc k) (CHR ''0''))
      = digits_val [CHR ''0''] * 10 ^ length (replicate k (CHR ''0'')) + digits_val (replicate k (CHR ''0''))"
    by (simp only: digits_val_append)
  then show ?case by (simp add: Suc.IH digits_val_zero)
qed

lemma not_digit_dot: "\<not> isDigit (CHR ''.'')"
  by (simp add: isDigit_def)

lemma parse_unsigned_int:
  assumes "\<forall>c \<in> set I. isDigit c" and "I \<noteq> []"
  shows "parse_unsigned I = Some (real (digits_val I))"
proof -
  have tw: "takeWhile isDigit I = I" using assms(1) by (simp add: takeWhile_eq_all_conv)
  have dw: "dropWhile isDigit I = []" using assms(1) by simp
  show ?thesis
    unfolding parse_unsigned_def Let_def tw dw using assms(2)
    by (simp add: digits_val_Nil)
qed

lemma parse_unsigned_frac:
  assumes "\<forall>c \<in> set I. isDigit c" and "I \<noteq> []" and "\<forall>c \<in> set F. isDigit c"
  shows "parse_unsigned (I @ CHR ''.'' # F)
         = Some (real (digits_val I) + real (digits_val F) / 10 ^ length F)"
proof -
  have tw: "takeWhile isDigit (I @ CHR ''.'' # F) = I"
    using assms(1) by (simp add: takeWhile_append2 not_digit_dot)
  have dw: "dropWhile isDigit (I @ CHR ''.'' # F) = CHR ''.'' # F"
    using assms(1) by (simp add: dropWhile_append2 not_digit_dot)
  have tf: "takeWhile isDigit F = F" using assms(3) by (simp add: takeWhile_eq_all_conv)
  show ?thesis
    unfolding parse_unsigned_def Let_def tw dw using assms(2)
    by (simp add: tf)
qed

lemma isDigit_zero: "isDigit (CHR ''0'')"
  by (simp add: isDigit_def)

lemma toFixed_digits_digits: "\<forall>c \<in> set (toFixed_digits d x). isDigit c"
  by (auto simp add: toFixed_digits_def Let_def show_nat_digits isDigit_zero)

lemma toFixed_digits_length: "d < length (toFixed_digits d x)"
  by (simp add: toFixed_digits_def Let_def)

lemma toFixed_digits_val:
  "digits_val (toFixed_digits d x) = nat \<lfloor>\<bar>x\<bar> * 10 ^ d + 1 / 2\<rfloor>"
  by (simp add: toFixed_digits_def Let_def digits_val_append digits_val_zeros digits_val_show_nat)

lemma parse_unsigned_split:
  assumes dig: "\<forall>c \<in> set M. isDigit c" and len: "d < length M"
  shows "parse_unsigned (take (length M - d) M
                         @ (if d = 0 then [] else CHR ''.'' # drop (length M - d) M))
         = Some (real (digits_val M) / 10 ^ d)"
proof -
  define I where "I = take (length M - d) M"
  define F where "F = drop (length M - d) M"
  have I: "\<forall>c \<in> set I. isDigit c" "I \<noteq> []"
    using dig len by (auto simp add: I_def dest: in_set_takeD)
  have F: "\<forall>c \<in> set F. isDigit c" "length F = d"
    using dig len by (auto simp add: F_def dest: in_set_dropD)
  have M: "M = I @ F" by (simp add: I_def F_def)
  have split: "real (digits_val M) = real (digits_val I) * 10 ^ d + real (digits_val F)"
    by (simp add: M digits_val_append F(2))
  show ?thesis
  proof (cases "d = 0")
    case True
    then have "F = []" using F(2) by simp
    then have "M = I" using M by simp
    then have "parse_unsigned I = Some (real (digits_val M))"
      using parse_unsigned_int [OF I] by simp
    then show ?thesis using True by (simp add: I_def)
  next
    case False
    have "parse_unsigned (I @ CHR ''.'' # F) = Some (real (digits_val M) / 10 ^ d)"
      unfolding parse_unsigned_frac [OF I F(1)] split F(2) by (simp add: field_simps)
    then show ?thesis using False by (simp add: I_def F_def)
  qed
qed

lemma digit_not_special:
  "isDigit c \<Longrightarrow> \<not> isSpace c \<and> c \<noteq> CHR ''-'' \<and> c \<noteq> CHR ''+''"
  by (auto simp add: isDigit_def isSpace_def)

lemma decimal_value_toFixed: "decimal_value (toFixed x d) = Some (toFixed_value x d)"
proof -
  define M where "M = toFixed_digits d x"
  define body where "body = take (length M - d) M
                         @ (if d = 0 then [] else CHR ''.'' # drop (length M - d) M)"
  have dig: "\<forall>c \<in> set M. isDigit c" and len: "d < length M"
    and val: "digits_val M = nat \<lfloor>\<bar>x\<bar> * 10 ^ d + 1 / 2\<rfloor>"
    by (simp_all add: M_def toFixed_digits_digits toFixed_digits_length toFixed_digits_val)
  have pu: "parse_unsigned body = Some (real (nat \<lfloor>\<bar>x\<bar> * 10 ^ d + 1 / 2\<rfloor>) / 10 ^ d)"
    unfolding body_def parse_unsigned_split [OF dig len] val by simp
  obtain c r where M: "M = c # r" using len by (cases M) auto
  with dig have c: "isDigit c" by simp
  have "take (length M - d) M = c # take (length r - d) r"
    using len M by (simp add: Suc_diff_le)
  then obtain r' where body: "body = c # r'" by (simp add: body_def)
  have tf: "toFixed x d = (if x < 0 then ''-'' else []) @ body"
    by (simp add: toFixed_def Let_def body_def M_def)
  show ?thesis
  proof (cases "x < 0")
    case True
    then have "toFixed x d = CHR ''-'' # body" using tf by simp
    then show ?thesis using True pu
      by (simp add: decimal_value_def isSpace_def toFixed_value_def)
  next
    case False
    then have "toFixed x d = c # r'" using tf body by simp
    then show ?thesis using False pu digit_not_special [OF c] body
      by (simp add: decimal_value_def toFixed_value_def)
  qed
qed

section \<open>Rounding to a double\<close>

lemma round_even_cases: "round_even y = \<lfloor>y\<rfloor> \<or> round_even y = \<lfloor>y\<rfloor> + 1"
  by (simp add: round_even_def Let_def)

lemma round_even_le:
  assumes "y \<le> of_int N"
  shows "round_even y \<le> N"
proof (cases "\<lfloor>y\<rfloor> = N")
  case True
  have "of_int \<lfloor>y\<rfloor> \<le> y" by simp
  with assms True have "y - of_int \<lfloor>y\<rfloor> = 0" by simp
  then show ?thesis using True by (simp add: round_even_def Let_def)
next
  case False
  have "\<lfloor>y\<rfloor> \<le> N" using assms by (simp add: floor_le_iff)
  with False have "\<lfloor>y\<rfloor> + 1 \<le> N" by simp
  then show ?thesis using round_even_cases [of y] by auto
qed

lemma round_even_ge:
  assumes "of_int N \<le> y"
  shows "N \<le> round_even y"
proof -
  have "N \<le> \<lfloor>y\<rfloor>" using assms by (simp add: le_floor_iff)
  then show ?thesis using round_even_cases [of y] by auto
qed

lemma round_even_close: "\<bar>of_int (round_even y) - y\<bar> \<le> 1 / 2"
proof -
  have "of_int \<lfloor>y\<rfloor> \<le> y" and "y < of_int \<lfloor>y\<rfloor> + 1" by simp_all
  then show ?thesis by (auto simp add: round_even_def Let_def)
qed

lemma binary_exponent_bounds:
  "0 < x \<Longrightarrow> 2 powi (binary_exponent x) \<le> x \<and> x < 2 powi (binary_exponent x + 1)"
proof (induction x rule: binary_exponent.induct)
  case (1 x)
  show ?case
  proof (cases "2 \<le> x")
    case True
    then have be: "binary_exponent x = binary_exponent (x / 2) + 1"
      by (subst binary_exponent.simps) simp
    have "2 powi (binary_exponent (x / 2)) \<le> x / 2
        \<and> x / 2 < 2 powi (binary_exponent (x / 2) + 1)"
      using 1 True by simp
    then show ?thesis unfolding be by (simp add: power_int_add)
  next
    case big: False
    show ?thesis
    proof (cases "x < 1")
      case True
      then have be: "binary_exponent x = binary_exponent (2 * x) - 1"
        using 1(3) by (subst binary_exponent.simps) simp
      have "2 powi (binary_exponent (2 * x)) \<le> 2 * x
          \<and> 2 * x < 2 powi (binary_exponent (2 * x) + 1)"
        using 1 True big by simp
      then show ?thesis unfolding be by (simp add: power_int_add power_int_diff)
    next
      case False
      then have "binary_exponent x = 0"
        using big 1(3) by (subst binary_exponent.simps) simp
      then show ?thesis using big False by simp
    qed
  qed
qed

lemma binary_exponent_zero: "binary_exponent 0 = 0"
  by (simp add: binary_exponent.simps)

lemma binary_exponent_below:
  assumes "0 \<le> y" and "y < 2 ^ k" and "0 < k"
  shows "binary_exponent y < int k"
proof (cases "y = 0")
  case True
  then show ?thesis using assms(3) by (simp add: binary_exponent_zero)
next
  case False
  then have "2 powi (binary_exponent y) \<le> y"
    using assms(1) binary_exponent_bounds [of y] by simp
  then have "(2::real) powi (binary_exponent y) < 2 powi int k"
    using assms(2) by (simp add: power_int_of_nat)
  then show ?thesis
    by (rule power_int_le_imp_less_exp [rotated]) simp_all
qed

lemma binary_exponent_small:
  assumes "0 \<le> y" and "y < 2 ^ 53"
  shows "binary_exponent y \<le> 52"
  using binary_exponent_below [OF assms] by simp

lemma binary_exponent_normal:
  assumes "1 \<le> y"
  shows "0 \<le> binary_exponent y"
proof (rule ccontr)
  assume "\<not> 0 \<le> binary_exponent y"
  then have "binary_exponent y + 1 \<le> 0" by simp
  then have "(2::real) powi (binary_exponent y + 1) \<le> 2 powi 0"
    by (rule power_int_increasing) simp
  moreover have "y < 2 powi (binary_exponent y + 1)"
    using assms binary_exponent_bounds [of y] by simp
  ultimately show False using assms by simp
qed

lemma round_magnitude_nonneg:
  assumes "0 \<le> y"
  shows "0 \<le> round_magnitude y"
proof -
  define q where "q = (2::real) powi (max (binary_exponent y) (- 1022) - 52)"
  have qpos: "0 < q" by (simp add: q_def)
  then have "of_int 0 \<le> y / q" using assms by simp
  then have "0 \<le> round_even (y / q)" by (rule round_even_ge)
  then show ?thesis
    using qpos unfolding round_magnitude_def Let_def q_def [symmetric] by simp
qed

lemma round_magnitude_le:
  assumes "0 \<le> y" and "y \<le> of_int c" and "c < 2 ^ 53"
  shows "round_magnitude y \<le> of_int c"
proof -
  define e where "e = max (binary_exponent y) (- 1022)"
  define q where "q = (2::real) powi (e - 52)"
  have "y < 2 ^ 53"
  proof -
    have "real_of_int c < real_of_int (2 ^ 53)" using assms(3) by (simp only: of_int_less_iff)
    then show ?thesis using assms(2) by simp
  qed
  then have e52: "e \<le> 52"
    using binary_exponent_small [OF assms(1)] by (simp add: e_def)
  have qpos: "0 < q" by (simp add: q_def)
  have "q = 1 / 2 powi (52 - e)"
    by (simp add: q_def power_int_diff)
  also have "(2::real) powi (52 - e) = 2 powi int (nat (52 - e))"
    using e52 by simp
  also have "\<dots> = 2 ^ nat (52 - e)" by (rule power_int_of_nat)
  finally have q: "q = 1 / 2 ^ nat (52 - e)" .
  have "y / q \<le> of_int c / q"
    using assms(2) qpos by (simp add: divide_right_mono)
  also have "of_int c / q = of_int (c * 2 ^ nat (52 - e))"
    by (simp add: q)
  finally have "round_even (y / q) \<le> c * 2 ^ nat (52 - e)"
    by (rule round_even_le)
  then have "real_of_int (round_even (y / q)) \<le> real_of_int (c * 2 ^ nat (52 - e))"
    by (simp only: of_int_le_iff)
  then have "real_of_int (round_even (y / q)) * q \<le> real_of_int (c * 2 ^ nat (52 - e)) * q"
    using qpos by (simp add: mult_right_mono)
  also have "\<dots> = of_int c" by (simp add: q)
  finally show ?thesis
    unfolding round_magnitude_def Let_def e_def [symmetric] q_def [symmetric] .
qed

lemma round_magnitude_close:
  assumes "1 \<le> y"
  shows "\<bar>round_magnitude y - y\<bar> \<le> y / 2 ^ 53"
proof -
  define e where "e = binary_exponent y"
  define q where "q = (2::real) powi (e - 52)"
  define n where "n = round_even (y / q)"
  have e0: "0 \<le> e" using binary_exponent_normal [OF assms] by (simp add: e_def)
  then have emax: "max (binary_exponent y) (- 1022) = e" by (simp add: e_def)
  have qpos: "0 < q" by (simp add: q_def)
  have rm: "round_magnitude y = of_int n * q"
    unfolding round_magnitude_def Let_def emax q_def [symmetric] n_def ..
  have "\<bar>of_int n - y / q\<bar> \<le> 1 / 2" unfolding n_def by (rule round_even_close)
  then have "\<bar>of_int n - y / q\<bar> * q \<le> 1 / 2 * q"
    using qpos by (simp only: mult_le_cancel_right) simp
  moreover have "\<bar>of_int n - y / q\<bar> * q = \<bar>of_int n * q - y\<bar>"
  proof -
    have "\<bar>of_int n - y / q\<bar> * q = \<bar>(of_int n - y / q) * q\<bar>"
      using qpos by (simp add: abs_mult)
    also have "(of_int n - y / q) * q = of_int n * q - y"
      using qpos by (simp add: field_simps)
    finally show ?thesis .
  qed
  ultimately have close: "\<bar>round_magnitude y - y\<bar> \<le> q / 2" by (simp add: rm)
  have "q = 2 powi e / 2 ^ 52" by (simp add: q_def power_int_diff)
  moreover have "2 powi e \<le> y"
    using assms binary_exponent_bounds [of y] by (simp add: e_def)
  ultimately have "q / 2 \<le> y / 2 ^ 53" by simp
  with close show ?thesis by linarith
qed

lemma round_magnitude_zero: "round_magnitude 0 = 0"
  by (simp add: round_magnitude_def Let_def round_even_def)

lemma number_value_uminus:
  "number_value (- x) =
     (case number_value x of
        NaN \<Rightarrow> NaN | Num d \<Rightarrow> Num (- d) | Infinity \<Rightarrow> NegInfinity | NegInfinity \<Rightarrow> Infinity)"
proof (cases "x = 0")
  case True
  then show ?thesis by (simp add: number_value_def round_magnitude_zero)
next
  case False
  then show ?thesis by (auto simp add: number_value_def Let_def)
qed

lemma num_lt_uminus: "num_lt (number_value x) (- b) = num_gt (number_value (- x)) b"
  unfolding number_value_uminus by (cases "number_value x") auto

lemma num_gt_uminus: "num_gt (number_value x) (- b) = num_lt (number_value (- x)) b"
  unfolding number_value_uminus by (cases "number_value x") auto

lemma two_53_below: "(2::real) ^ 53 < 2 powi 1024"
  by simp

lemma number_value_not_above:
  assumes "x \<le> of_int c" and "0 \<le> c" and "c < 2 ^ 53"
  shows "\<not> num_gt (number_value x) (of_int c)"
proof (cases "x < 0")
  case True
  have "0 \<le> round_magnitude \<bar>x\<bar>" by (rule round_magnitude_nonneg) simp
  moreover have "(0::real) \<le> of_int c" using assms(2) by simp
  ultimately show ?thesis using True by (simp add: number_value_def Let_def)
next
  case False
  then have ax: "\<bar>x\<bar> = x" by simp
  have le: "round_magnitude x \<le> of_int c"
    using False assms by (intro round_magnitude_le) simp_all
  have "real_of_int c < real_of_int (2 ^ 53)" using assms(3) by (simp only: of_int_less_iff)
  then have "real_of_int c < 2 powi 1024" using two_53_below by simp
  with le show ?thesis using False by (simp add: number_value_def Let_def ax)
qed

lemma number_value_not_below:
  assumes "- of_int c \<le> x" and "0 \<le> c" and "c < 2 ^ 53"
  shows "\<not> num_lt (number_value x) (- of_int c)"
  unfolding num_lt_uminus using number_value_not_above [of "- x" c] assms by simp

lemma number_value_above:
  assumes "of_int c + m \<le> x" and "1 \<le> c" and "c \<le> 180" and "1 / 10 ^ 13 \<le> m"
  shows "num_gt (number_value x) (of_int c)"
proof -
  have c1: "(1::real) \<le> of_int c" and c2: "real_of_int c \<le> 180"
    using assms(2,3) by simp_all
  have x1: "1 \<le> x" using assms(1,4) c1 by simp
  then have ax: "\<bar>x\<bar> = x" and pos: "\<not> x < 0" by simp_all
  have "\<bar>round_magnitude x - x\<bar> \<le> x / 2 ^ 53" by (rule round_magnitude_close [OF x1])
  then have "x - x / 2 ^ 53 \<le> round_magnitude x" by linarith
  then have "of_int c < round_magnitude x"
    using assms(1,4) c2 by simp
  then show ?thesis using pos by (simp add: number_value_def Let_def ax)
qed

lemma number_value_below:
  assumes "x \<le> - of_int c - m" and "1 \<le> c" and "c \<le> 180" and "1 / 10 ^ 13 \<le> m"
  shows "num_lt (number_value x) (- of_int c)"
  unfolding num_lt_uminus using number_value_above [of c m "- x"] assms by simp

lemma number_value_finite:
  assumes "\<bar>x\<bar> \<le> of_int c" and "c < 2 ^ 53"
  shows "\<exists>d. number_value x = Num d \<and> \<bar>d\<bar> \<le> of_int c"
proof -
  have le: "round_magnitude \<bar>x\<bar> \<le> of_int c"
    using assms by (intro round_magnitude_le) simp_all
  have ge: "0 \<le> round_magnitude \<bar>x\<bar>" by (rule round_magnitude_nonneg) simp
  have "real_of_int c < real_of_int (2 ^ 53)" using assms(2) by (simp only: of_int_less_iff)
  then have "real_of_int c < 2 powi 1024" using two_53_below by simp
  with le ge show ?thesis
    by (cases "x < 0") (simp_all add: number_value_def Let_def abs_if)
qed

lemma round_magnitude_near:
  assumes "0 \<le> y" and "y \<le> 180"
  shows "\<bar>round_magnitude y - y\<bar> \<le> 1 / 2 ^ 46"
proof -
  define e where "e = max (binary_exponent y) (- 1022)"
  define q where "q = (2::real) powi (e - 52)"
  define n where "n = round_even (y / q)"
  have "y < 2 ^ 8" using assms(2) by simp
  then have "binary_exponent y < int 8"
    using assms(1) by (intro binary_exponent_below) simp_all
  then have e7: "e - 52 \<le> - 45" by (simp add: e_def)
  have qpos: "0 < q" by (simp add: q_def)
  have "q \<le> 2 powi (- 45)"
    unfolding q_def using e7 by (rule power_int_increasing) simp
  then have q45: "q / 2 \<le> 1 / 2 ^ 46" by (simp add: power_int_minus_divide)
  have rm: "round_magnitude y = of_int n * q"
    unfolding round_magnitude_def Let_def e_def [symmetric] q_def [symmetric] n_def ..
  have "\<bar>of_int n - y / q\<bar> \<le> 1 / 2" unfolding n_def by (rule round_even_close)
  then have "\<bar>of_int n - y / q\<bar> * q \<le> 1 / 2 * q"
    using qpos by (simp only: mult_le_cancel_right) simp
  moreover have "\<bar>of_int n - y / q\<bar> * q = \<bar>of_int n * q - y\<bar>"
  proof -
    have "\<bar>of_int n - y / q\<bar> * q = \<bar>(of_int n - y / q) * q\<bar>"
      using qpos by (simp add: abs_mult)
    also have "(of_int n - y / q) * q = of_int n * q - y"
      using qpos by (simp add: field_simps)
    finally show ?thesis .
  qed
  ultimately have "\<bar>round_magnitude y - y\<bar> \<le> q / 2" by (simp add: rm)
  with q45 show ?thesis by linarith
qed

lemma number_value_near:
  assumes "\<bar>x\<bar> \<le> 180" and "number_value x = Num d"
  shows "\<bar>d - x\<bar> \<le> 1 / 2 ^ 46"
proof -
  have near: "\<bar>round_magnitude \<bar>x\<bar> - \<bar>x\<bar>\<bar> \<le> 1 / 2 ^ 46"
    using assms(1) by (intro round_magnitude_near) simp_all
  have "d = (if x < 0 then - round_magnitude \<bar>x\<bar> else round_magnitude \<bar>x\<bar>)"
    using assms(2) by (simp add: number_value_def Let_def split: if_splits)
  then show ?thesis using near by (cases "x < 0") (auto simp add: abs_if split: if_splits)
qed

text \<open>
  Two values to compare with what JavaScript prints: \<open>0.1\<close> is read as the double
  \<open>3602879701896397 / 2^55\<close>, and \<open>2^53 + 1\<close>, which lies half way between two doubles,
  as \<open>2^53\<close>.
\<close>

lemma number_value_examples:
  "number_value (1 / 10) = Num (3602879701896397 / 2 ^ 55)"
  "number_value (2 ^ 53 + 1) = Num (2 ^ 53)"
  by (simp_all add: number_value_def round_magnitude_def binary_exponent.simps Let_def
      round_even_def power_int_def power_one_over)

section \<open>Reading back a number written with toFixed\<close>

lemma parseFloat_toFixed: "parseFloat (toFixed x d) = number_value (toFixed_value x d)"
  by (simp add: parseFloat_def decimal_value_toFixed)

lemma toFixed_value_int: "\<exists>k::int. toFixed_value x d = of_int k / 10 ^ d"
proof (cases "x < 0")
  case True
  have "toFixed_value x d = of_int (- int (nat \<lfloor>\<bar>x\<bar> * 10 ^ d + 1 / 2\<rfloor>)) / 10 ^ d"
    using True by (simp add: toFixed_value_def)
  then show ?thesis ..
next
  case False
  have "toFixed_value x d = of_int (int (nat \<lfloor>\<bar>x\<bar> * 10 ^ d + 1 / 2\<rfloor>)) / 10 ^ d"
    using False by (simp add: toFixed_value_def)
  then show ?thesis ..
qed

lemma toFixed_value_gap_above:
  assumes "of_int c < toFixed_value x d"
  shows "of_int c + 1 / 10 ^ d \<le> toFixed_value x d"
proof -
  obtain k :: int where k: "toFixed_value x d = of_int k / 10 ^ d"
    using toFixed_value_int by blast
  have "real_of_int c * 10 ^ d < of_int k"
    using assms by (simp add: k pos_less_divide_eq)
  then have "real_of_int (c * 10 ^ d) < real_of_int k" by simp
  then have "c * 10 ^ d < k" by (simp only: of_int_less_iff)
  then have "c * 10 ^ d + 1 \<le> k" by simp
  then have "real_of_int (c * 10 ^ d + 1) \<le> real_of_int k" by (simp only: of_int_le_iff)
  then have "real_of_int c * 10 ^ d + 1 \<le> of_int k" by simp
  then have "(real_of_int c * 10 ^ d + 1) / 10 ^ d \<le> of_int k / 10 ^ d"
    by (simp add: divide_right_mono)
  then show ?thesis by (simp add: k add_divide_distrib)
qed

lemma toFixed_value_gap_below:
  assumes "toFixed_value x d < of_int c"
  shows "toFixed_value x d \<le> of_int c - 1 / 10 ^ d"
proof -
  obtain k :: int where k: "toFixed_value x d = of_int k / 10 ^ d"
    using toFixed_value_int by blast
  have "of_int k < real_of_int c * 10 ^ d"
    using assms by (simp add: k pos_divide_less_eq)
  then have "real_of_int k < real_of_int (c * 10 ^ d)" by simp
  then have "k < c * 10 ^ d" by (simp only: of_int_less_iff)
  then have "k \<le> c * 10 ^ d - 1" by simp
  then have "real_of_int k \<le> real_of_int (c * 10 ^ d - 1)" by (simp only: of_int_le_iff)
  then have "of_int k \<le> real_of_int c * 10 ^ d - 1" by simp
  then have "of_int k / 10 ^ d \<le> (real_of_int c * 10 ^ d - 1) / 10 ^ d"
    by (simp add: divide_right_mono)
  then show ?thesis by (simp add: k diff_divide_distrib)
qed

lemma toFixed_compare:
  assumes "1 \<le> c" and "c \<le> 180"
  shows "num_gt (parseFloat (toFixed x 4)) (of_int c) = (of_int c < toFixed_value x 4)"
    and "num_lt (parseFloat (toFixed x 4)) (- of_int c) = (toFixed_value x 4 < - of_int c)"
proof -
  have c53: "c < 2 ^ 53" and c0: "0 \<le> c" using assms by simp_all
  have m: "(1::real) / 10 ^ 13 \<le> 1 / 10 ^ 4" by simp
  show "num_gt (parseFloat (toFixed x 4)) (of_int c) = (of_int c < toFixed_value x 4)"
  proof (cases "of_int c < toFixed_value x 4")
    case True
    from toFixed_value_gap_above [OF this]
    have "num_gt (number_value (toFixed_value x 4)) (of_int c)"
      by (rule number_value_above [OF _ assms m])
    with True show ?thesis by (simp add: parseFloat_toFixed)
  next
    case False
    then have "toFixed_value x 4 \<le> of_int c" by simp
    then have "\<not> num_gt (number_value (toFixed_value x 4)) (of_int c)"
      by (rule number_value_not_above [OF _ c0 c53])
    with False show ?thesis by (simp add: parseFloat_toFixed)
  qed
  show "num_lt (parseFloat (toFixed x 4)) (- of_int c) = (toFixed_value x 4 < - of_int c)"
  proof (cases "toFixed_value x 4 < - of_int c")
    case True
    then have "toFixed_value x 4 < of_int (- c)" by simp
    from toFixed_value_gap_below [OF this]
    have "toFixed_value x 4 \<le> - of_int c - 1 / 10 ^ 4" by simp
    then have "num_lt (number_value (toFixed_value x 4)) (- of_int c)"
      by (rule number_value_below [OF _ assms m])
    with True show ?thesis by (simp add: parseFloat_toFixed)
  next
    case False
    then have "- of_int c \<le> toFixed_value x 4" by simp
    then have "\<not> num_lt (number_value (toFixed_value x 4)) (- of_int c)"
      by (rule number_value_not_below [OF _ c0 c53])
    with False show ?thesis by (simp add: parseFloat_toFixed)
  qed
qed

lemma toFixed_compare_bounds:
  "num_lt (parseFloat (toFixed x 4)) (- 90) = (toFixed_value x 4 < - 90)"
  "num_gt (parseFloat (toFixed x 4)) 90 = (90 < toFixed_value x 4)"
  "num_lt (parseFloat (toFixed x 4)) (- 180) = (toFixed_value x 4 < - 180)"
  "num_gt (parseFloat (toFixed x 4)) 180 = (180 < toFixed_value x 4)"
  using toFixed_compare [of 90 x] toFixed_compare [of 180 x] by simp_all

section \<open>The sample page\<close>

lemma sample_page_fields:
  "marker sample_page = Some (30.0444, 31.2357)"
  "selected_location sample_page = Some (30.0444, 31.2357)"
  "date_value sample_page = ''2024-07-01''"
  "threshold_value sample_page = ''32''"
  "var_value sample_page = ''T2M_MAX''"
  "comparison_value sample_page = ''gt''"
  "window_value sample_page = ''15''"
  "effects sample_page = [NewMarker (30.0444, 31.2357)]"
  "active_cards sample_page = {}"
  by (simp_all add: sample_page_def map_click_def initial_page_def addMarker_def
      clearAreaSelection_def updateAreaSelectionUI_def updateButtonState_def
      selected_location_def Let_def)

lemma sample_page_passes: "passes_validation (30.0444, 31.2357) sample_page"
  by (simp add: passes_validation_def sample_page_fields toFixed_value_def)

section \<open>Risk colour and risk level\<close>

text \<open>
  Claim C8. For every probability and comparison, the colour \<open>getRiskColor\<close> computes and
  the risk level \<open>updateInsights\<close> writes use the same boundaries on the effective
  probability (\<open>1 - p\<close> when the comparison is \<open>lt\<close>, \<open>p\<close> otherwise): green exactly
  when the level is Low, which is when it is below 0.3; yellow exactly when Medium, from
  0.3 up to but not including 0.7; red exactly when High, from 0.7 on. The comparison is
  the one the page holds when both are computed.
\<close>

theorem risk_color_agrees_with_level:
  fixes data :: api_data and s :: page and persona :: "string option"
  defines "p \<equiv> probability data"
  defines "eff \<equiv> (if comparison_value s = ''lt'' then 1 - p else p)"
  shows "((getRiskColor p (comparison_value s) = ''#10b981'') = (eff < 0.3))
       \<and> ((risk_text (updateInsights data persona s) = ''Low'') = (eff < 0.3))
       \<and> ((getRiskColor p (comparison_value s) = ''#f59e0b'') = (0.3 \<le> eff \<and> eff < 0.7))
       \<and> ((risk_text (updateInsights data persona s) = ''Medium'') = (0.3 \<le> eff \<and> eff < 0.7))
       \<and> ((getRiskColor p (comparison_value s) = ''#ef4444'') = (0.7 \<le> eff))
       \<and> ((risk_text (updateInsights data persona s) = ''High'') = (0.7 \<le> eff))"
  unfolding eff_def p_def
  by (auto simp add: getRiskColor_def updateInsights_def Let_def)

theorem risk_color_agrees_with_level_witness:
  "getRiskColor (probability sample_data) (comparison_value sample_page) = ''#f59e0b''
   \<and> risk_text (updateInsights sample_data None sample_page) = ''Medium''"
  using risk_color_agrees_with_level [of sample_data sample_page None]
  by (simp add: sample_page_fields sample_data_def)

section \<open>The suggestion list\<close>

text \<open>
  Claim C10. For every list of matching cities passed to \<open>showSuggestions\<close>, at most 8
  entries are rendered: the entries are those of the first 8 cities of the list, in
  order, each built by \<open>render_suggestion\<close> from the current value of the location input.
  An empty list renders no entry and hides the container.
\<close>

theorem showSuggestions_first_eight:
  "length (suggestions_children (showSuggestions cs s)) = min 8 (length cs)
   \<and> map on_click (suggestions_children (showSuggestions cs s)) = take 8 cs
   \<and> suggestions_children (showSuggestions cs s)
       = map (render_suggestion (location_input s)) (take 8 cs)
   \<and> suggestions_children (showSuggestions [] s) = []
   \<and> suggestions_display (showSuggestions [] s) = ''none''"
proof -
  have children: "suggestions_children (showSuggestions cs s)
      = map (render_suggestion (location_input s)) (take 8 cs)"
    by (simp add: showSuggestions_def Let_def)
  have click: "map (on_click \<circ> render_suggestion v) xs = xs" for v xs
    by (induction xs) (simp_all add: render_suggestion_def Let_def)
  have empty: "suggestions_children (showSuggestions [] s) = []"
    "suggestions_display (showSuggestions [] s) = ''none''"
    by (simp_all add: showSuggestions_def Let_def)
  show ?thesis
    unfolding children by (simp add: click empty min.commute)
qed

theorem showSuggestions_first_eight_witness:
  "length (suggestions_children (showSuggestions cities sample_page)) = 8
   \<and> map (name \<circ> on_click) (suggestions_children (showSuggestions cities sample_page))
       = [''Cairo'', ''London'', ''New York'', ''Paris'', ''Tokyo'', ''Sydney'', ''Dubai'', ''Mumbai'']"
proof -
  note t = showSuggestions_first_eight [of cities sample_page]
  have len: "length (suggestions_children (showSuggestions cities sample_page)) = 8"
    using t [THEN conjunct1] by (simp add: cities_def)
  have "map on_click (suggestions_children (showSuggestions cities sample_page)) = take 8 cities"
    using t [THEN conjunct2, THEN conjunct1] .
  then have "map name (map on_click (suggestions_children (showSuggestions cities sample_page)))
      = map name (take 8 cities)"
    by simp
  then have names: "map (name \<circ> on_click) (suggestions_children (showSuggestions cities sample_page))
       = [''Cairo'', ''London'', ''New York'', ''Paris'', ''Tokyo'', ''Sydney'', ''Dubai'', ''Mumbai'']"
    by (simp add: cities_def)
  from len names show ?thesis by (rule conjI)
qed

section \<open>Persona presets\<close>

text \<open>
  Claim C7, as the code has it. The personas with a preset are \<open>farmer\<close>, \<open>fisher\<close>,
  \<open>tourist\<close> and \<open>driver\<close>: selecting one of them sets the variable, the threshold and
  the comparison of the form to a fixed triple, whatever the form held before. Any other
  persona, \<open>general\<close> among them, leaves the three fields as they were. Clicking the
  card that is active deselects the persona and restores \<open>T2M_MAX\<close>, \<open>32\<close>, \<open>gt\<close>.
\<close>

theorem persona_presets:
  "(var_value (updateFormForPersona p s), threshold_value (updateFormForPersona p s),
    comparison_value (updateFormForPersona p s))
   = (if p = ''farmer'' then (''PRECTOTCORR'', ''5'', ''gt'')
      else if p = ''fisher'' then (''WS10M'', ''15'', ''lt'')
      else if p = ''tourist'' then (''T2M_MAX'', ''25'', ''gt'')
      else if p = ''driver'' then (''PRECTOTCORR'', ''1'', ''lt'')
      else (var_value s, threshold_value s, comparison_value s))
   \<and> selectedPersona (persona_card_click p s) = (if p \<in> active_cards s then None else Some p)
   \<and> (var_value (persona_card_click p s), threshold_value (persona_card_click p s),
        comparison_value (persona_card_click p s))
       = (if p \<in> active_cards s then (''T2M_MAX'', ''32'', ''gt'')
          else (var_value (updateFormForPersona p s), threshold_value (updateFormForPersona p s),
                comparison_value (updateFormForPersona p s)))"
  by (simp add: persona_card_click_def updateFormForPersona_def resetFormToDefault_def
      updateButtonState_def Let_def)

theorem persona_presets_witness:
  "(var_value (persona_card_click ''fisher'' sample_page),
    threshold_value (persona_card_click ''fisher'' sample_page),
    comparison_value (persona_card_click ''fisher'' sample_page)) = (''WS10M'', ''15'', ''lt'')
   \<and> selectedPersona (persona_card_click ''fisher'' sample_page) = Some ''fisher''"
  using persona_presets [of "''fisher''" sample_page]
  by (simp add: sample_page_fields)

text \<open>
  Claim C7 as stated fails: \<open>general\<close> has no preset (what the form holds after it is
  selected depends on what it held before), and \<open>tourist\<close>, which is not one of
  \<open>farmer\<close>, \<open>fisher\<close>, \<open>general\<close>, has one.
\<close>

theorem persona_general_counterexample:
  "threshold_value (persona_card_click ''general'' (initial_page ''2024-07-01'')) = ''32''
   \<and> threshold_value
         (persona_card_click ''general'' ((initial_page ''2024-07-01'')\<lparr>threshold_value := ''40''\<rparr>))
       = ''40''
   \<and> (var_value (persona_card_click ''tourist'' (initial_page ''2024-07-01'')),
        threshold_value (persona_card_click ''tourist'' (initial_page ''2024-07-01'')),
        comparison_value (persona_card_click ''tourist'' (initial_page ''2024-07-01'')))
       = (''T2M_MAX'', ''25'', ''gt'')"
  by (simp add: persona_card_click_def updateFormForPersona_def initial_page_def
      updateButtonState_def Let_def)

section \<open>The trend chart\<close>

lemma trend_loop_eq:
  "i \<le> 10 \<Longrightarrow>
   trend_loop data random i years probabilities =
     (years @ map (\<lambda>j. 2015 + j) [i..<10],
      probabilities
        @ map (\<lambda>j. max 0 (min 1 (probability data + (random j - 0.5) * 0.3)) * 100) [i..<10])"
proof (induction data random i years probabilities rule: trend_loop.induct)
  case (1 data random i years probabilities)
  show ?case
  proof (cases "i < 10")
    case True
    then have upt: "[i..<10] = i # [i + 1..<10]" by (simp add: upt_conv_Cons)
    from True have "i + 1 \<le> 10" by simp
    with 1 True show ?thesis
      by (subst trend_loop.simps) (simp add: upt Let_def)
  next
    case False
    with 1 have "i = 10" by simp
    then show ?thesis by (subst trend_loop.simps) simp
  qed
qed

lemma createTrendChart_eq:
  "createTrendChart data random =
     \<lparr>tc_labels = map (\<lambda>j. 2015 + j) [0..<10],
      tc_data = map (\<lambda>j. max 0 (min 1 (probability data + (random j - 0.5) * 0.3)) * 100) [0..<10]\<rparr>"
  by (simp add: createTrendChart_def trend_loop_eq)

text \<open>
  Claim C3, as the code has it. The trend chart is drawn from the result's probability
  and from ten values of \<open>Math.random()\<close>: the labels are the years 2015 to 2024, and
  the value of the \<open>i\<close>-th year is \<open>100 * max(0, min(1, p + (r\<^sub>i - 0.5) * 0.3))\<close>, where
  \<open>r\<^sub>i\<close> is the \<open>i\<close>-th value drawn. Two renderings of the same result that draw the
  same ten values produce the same labels and values, and every value lies between 0 and
  100.
\<close>

theorem trend_chart_values:
  "tc_labels (createTrendChart data random) = map (\<lambda>i. 2015 + i) [0..<10]
   \<and> tc_data (createTrendChart data random)
       = map (\<lambda>i. max 0 (min 1 (probability data + (random i - 0.5) * 0.3)) * 100) [0..<10]
   \<and> ((\<forall>i<10. random i = random' i)
        \<longrightarrow> createTrendChart data random = createTrendChart data random')
   \<and> (\<forall>v \<in> set (tc_data (createTrendChart data random)). 0 \<le> v \<and> v \<le> 100)"
  by (auto simp add: createTrendChart_eq)

theorem trend_chart_values_witness:
  "tc_labels (createTrendChart sample_data random_half)
     = [2015, 2016, 2017, 2018, 2019, 2020, 2021, 2022, 2023, 2024]
   \<and> createTrendChart sample_data random_half
       = createTrendChart sample_data (\<lambda>i. if i < 10 then 1 / 2 else 0)
   \<and> tc_data (createTrendChart sample_data random_half) = replicate 10 50"
proof -
  have upt: "[0..<10] = [0, 1, 2, 3, 4, 5, 6, 7, 8, 9]"
    by (simp add: upt_rec)
  note t = trend_chart_values [of sample_data random_half "\<lambda>i. if i < 10 then 1 / 2 else 0"]
  have labels: "tc_labels (createTrendChart sample_data random_half)
     = [2015, 2016, 2017, 2018, 2019, 2020, 2021, 2022, 2023, 2024]"
    using t [THEN conjunct1] by (simp add: upt)
  have vals: "tc_data (createTrendChart sample_data random_half) = replicate 10 50"
    using t [THEN conjunct2, THEN conjunct1]
    by (simp add: upt sample_data_def random_half_def numeral_eq_Suc)
  have eq: "createTrendChart sample_data random_half
       = createTrendChart sample_data (\<lambda>i. if i < 10 then 1 / 2 else 0)"
    using t [THEN conjunct2, THEN conjunct2, THEN conjunct1] by (simp add: random_half_def)
  show ?thesis
    using labels vals eq by (intro conjI)
qed

text \<open>
  Claim C3 as stated fails: two renderings of the same result, one whose draws are all 0
  and one whose draws are all 0.5, give different values (35 and 50 for the first year).
\<close>

theorem trend_chart_counterexample:
  "tc_data (createTrendChart sample_data random_zero)
   \<noteq> tc_data (createTrendChart sample_data random_half)"
proof -
  have upt: "[0..<10] = 0 # [1..<10]" by (simp add: upt_conv_Cons)
  have "hd (tc_data (createTrendChart sample_data random_zero)) = 35"
    by (simp add: createTrendChart_eq upt sample_data_def random_zero_def)
  moreover have "hd (tc_data (createTrendChart sample_data random_half)) = 50"
    by (simp add: createTrendChart_eq upt sample_data_def random_half_def)
  ultimately show ?thesis by auto
qed

section \<open>The run handler, step by step\<close>

lemma run_finally_fields:
  "out_className (run_finally s) = out_className s"
  "out_innerHTML (run_finally s) = out_innerHTML s"
  "effects (run_finally s) = effects s"
  "probabilityChartInstance (run_finally s) = probabilityChartInstance s"
  "trendChartInstance (run_finally s) = trendChartInstance s"
  "risk_text (run_finally s) = risk_text s"
  by (simp_all add: run_finally_def updateButtonState_def Let_def)

lemma run_catch_fields:
  "out_className (run_catch m s) = ''result error''"
  "out_innerHTML (run_catch m s) = Text (''Error: '' @ errorMessage m)"
  "effects (run_catch m s) = effects s"
  "probabilityChartInstance (run_catch m s) = probabilityChartInstance s"
  "trendChartInstance (run_catch m s) = trendChartInstance s"
  "risk_text (run_catch m s) = risk_text s"
  by (simp_all add: run_catch_def)

lemma failed_fetch_json: "failed resp \<Longrightarrow> \<exists>m. fetch_json resp = Inl m"
  by (cases resp) (simp_all add: fetch_json_def)

lemma run_located_rejected:
  assumes "\<not> passes_validation (la, lo) s"
  shows "effects (run_located (toFixed la 4) (toFixed lo 4) lt resp random s) = effects s"
    and "out_className (run_located (toFixed la 4) (toFixed lo 4) lt resp random s) = ''result error''"
    and "\<exists>t. out_innerHTML (run_located (toFixed la 4) (toFixed lo 4) lt resp random s) = Text t"
  using assms
  by (auto simp add: run_located_def passes_validation_def toFixed_compare_bounds Let_def)

lemma run_located_accepted:
  assumes "passes_validation (la, lo) s"
  shows "run_located (toFixed la 4) (toFixed lo 4) lt resp random s =
     run_finally
       (case fetch_json resp of
          Inl message \<Rightarrow>
            run_catch message
              (s\<lparr>out_className := ''result loading'', out_innerHTML := Loading,
                 button_disabled := True,
                 effects := effects s @ [Fetch (request_for (la, lo) s)]\<rparr>)
        | Inr data \<Rightarrow>
            run_render data (toFixed la 4) (toFixed lo 4) lt random
              (s\<lparr>out_className := ''result loading'', out_innerHTML := Loading,
                 button_disabled := True,
                 effects := effects s @ [Fetch (request_for (la, lo) s)]\<rparr>))"
  using assms
  by (cases "fetch_json resp")
     (simp_all add: run_located_def passes_validation_def toFixed_compare_bounds
      Let_def request_for_def not_less)

lemma run_click_no_location:
  assumes "selected_location s = None"
  shows "effects (run_click resp random s) = effects s
    \<and> out_className (run_click resp random s) = ''result error''
    \<and> (\<exists>t. out_innerHTML (run_click resp random s) = Text t)"
  using assms
  by (auto simp add: run_click_def selected_location_def split: option.splits)

lemma run_click_located:
  assumes "selected_location s = Some pos"
  shows "run_click resp random s
         = run_located (toFixed (fst pos) 4) (toFixed (snd pos) 4)
             (if marker s \<noteq> None then ''point'' else ''area'') resp random s"
  using assms
  by (auto simp add: run_click_def selected_location_def split: option.splits)

lemma run_click_rejected:
  assumes "selected_location s = Some pos" and "\<not> passes_validation pos s"
  shows "effects (run_click resp random s) = effects s
    \<and> out_className (run_click resp random s) = ''result error''
    \<and> (\<exists>t. out_innerHTML (run_click resp random s) = Text t)"
  using run_located_rejected [of "fst pos" "snd pos" s] assms(2)
  by (simp add: run_click_located [OF assms(1)])

lemma run_click_error:
  assumes "selected_location s = Some pos" and "passes_validation pos s"
    and "fetch_json resp = Inl m"
  shows "effects (run_click resp random s) = effects s @ [Fetch (request_for pos s)]
    \<and> out_className (run_click resp random s) = ''result error''
    \<and> out_innerHTML (run_click resp random s) = Text (''Error: '' @ errorMessage m)
    \<and> probabilityChartInstance (run_click resp random s) = probabilityChartInstance s
    \<and> trendChartInstance (run_click resp random s) = trendChartInstance s
    \<and> risk_text (run_click resp random s) = risk_text s"
proof -
  have acc: "passes_validation (fst pos, snd pos) s" using assms(2) by simp
  show ?thesis
    by (simp add: run_click_located [OF assms(1)] run_located_accepted [OF acc] assms(3)
         run_finally_fields run_catch_fields)
qed

lemma run_click_ok:
  assumes "selected_location s = Some pos" and "passes_validation pos s"
  shows "effects (run_click (Ok data) random s) = effects s @ [Fetch (request_for pos s)]
    \<and> out_className (run_click (Ok data) random s) = ''result has-data''
    \<and> shown_probability (out_innerHTML (run_click (Ok data) random s))
        = Some (fmtPct (probability data))
    \<and> shown_method (out_innerHTML (run_click (Ok data) random s))
        = Some (case method_str data of
                  Some m \<Rightarrow> if m \<noteq> [] then m else default_method
                | None \<Rightarrow> default_method)
    \<and> shown_source (out_innerHTML (run_click (Ok data) random s))
        = Some (case source data of Some xs \<Rightarrow> join '', '' xs | None \<Rightarrow> default_source)"
proof -
  have acc: "passes_validation (fst pos, snd pos) s" using assms(2) by simp
  have fj: "fetch_json (Ok data) = Inr data" by (simp add: fetch_json_def)
  show ?thesis
    by (simp add: run_click_located [OF assms(1)] run_located_accepted [OF acc] fj
         run_finally_fields run_render_def updateInsights_def createCharts_def Let_def
         shown_probability_def shown_method_def shown_source_def split: option.splits)
qed

lemma frontend_run_click_error:
  assumes "marker s = Some pos" and "date_value s \<noteq> []" and "fetch_json resp = Inl m"
  shows "out_innerHTML (frontend_run_click resp s) = Text (''Error: '' @ m)
    \<and> effects (frontend_run_click resp s) = effects s @ [Fetch (request_for pos s)]"
  using assms by (simp add: frontend_run_click_def Let_def request_for_def)

lemma frontend_run_click_not_sent:
  assumes "marker s = None \<or> date_value s = []"
  shows "effects (frontend_run_click resp s) = effects s"
  using assms by (auto simp add: frontend_run_click_def Let_def split: option.splits)

lemma run_click_sent:
  assumes "effects (run_click resp random s) \<noteq> effects s"
  shows "\<exists>pos. selected_location s = Some pos \<and> passes_validation pos s"
proof (cases "selected_location s")
  case None
  then show ?thesis using run_click_no_location [of s resp random] assms by simp
next
  case (Some pos)
  then show ?thesis using run_click_rejected [of s pos resp random] assms by auto
qed

lemma run_click_has_data:
  assumes "out_className (run_click resp random s) = ''result has-data''"
  shows "\<exists>pos. selected_location s = Some pos \<and> passes_validation pos s"
proof (cases "selected_location s")
  case None
  then show ?thesis using run_click_no_location [of s resp random] assms by simp
next
  case (Some pos)
  then show ?thesis using run_click_rejected [of s pos resp random] assms by auto
qed

lemma errorMessage_plain: "errorMessage ''No data'' = ''No data''"
  by (simp add: errorMessage_def str_includes_def)

section \<open>Failed requests\<close>

text \<open>
  Claim C1. When the API call of a probability request fails (\<open>fetch\<close> rejects, or the
  response is not \<open>ok\<close>), an error with some message \<open>m\<close> is thrown, and the output
  element never holds a result card afterwards, so no probability value is shown; the
  charts and the risk level are left as they were. Whenever the click did send a request,
  the output element has the class \<open>result error\<close> and holds \<open>Error: \<close> followed by the
  message the \<open>catch\<close> branch makes of \<open>m\<close>. The first version of the handler writes
  \<open>Error: \<close> followed by \<open>m\<close> itself.
\<close>

theorem failed_request_shows_error:
  assumes "failed resp"
  shows "\<exists>m. fetch_json resp = Inl m
    \<and> shown_probability (out_innerHTML (run_click resp random s)) = None
    \<and> probabilityChartInstance (run_click resp random s) = probabilityChartInstance s
    \<and> trendChartInstance (run_click resp random s) = trendChartInstance s
    \<and> risk_text (run_click resp random s) = risk_text s
    \<and> (effects (run_click resp random s) \<noteq> effects s \<longrightarrow>
          out_className (run_click resp random s) = ''result error''
          \<and> out_innerHTML (run_click resp random s) = Text (''Error: '' @ errorMessage m))
    \<and> (effects (frontend_run_click resp s) \<noteq> effects s \<longrightarrow>
          out_innerHTML (frontend_run_click resp s) = Text (''Error: '' @ m))"
proof -
  from assms obtain m where m: "fetch_json resp = Inl m"
    using failed_fetch_json by blast
  have new: "shown_probability (out_innerHTML (run_click resp random s)) = None
    \<and> probabilityChartInstance (run_click resp random s) = probabilityChartInstance s
    \<and> trendChartInstance (run_click resp random s) = trendChartInstance s
    \<and> risk_text (run_click resp random s) = risk_text s
    \<and> (effects (run_click resp random s) \<noteq> effects s \<longrightarrow>
          out_className (run_click resp random s) = ''result error''
          \<and> out_innerHTML (run_click resp random s) = Text (''Error: '' @ errorMessage m))"
  proof (cases "selected_location s")
    case None
    then show ?thesis
      by (auto simp add: run_click_def selected_location_def shown_probability_def
          split: option.splits)
  next
    case (Some pos)
    show ?thesis
    proof (cases "passes_validation pos s")
      case True
      show ?thesis
        using run_click_error [OF Some True m, of random]
        by (simp add: shown_probability_def)
    next
      case False
      have nv: "\<not> passes_validation (fst pos, snd pos) s" using False by simp
      have eff: "effects (run_click resp random s) = effects s"
        using run_click_rejected [OF Some False] by simp
      have rest: "shown_probability (out_innerHTML (run_click resp random s)) = None
        \<and> probabilityChartInstance (run_click resp random s) = probabilityChartInstance s
        \<and> trendChartInstance (run_click resp random s) = trendChartInstance s
        \<and> risk_text (run_click resp random s) = risk_text s"
        using nv
        by (auto simp add: run_click_located [OF Some] run_located_def passes_validation_def
            toFixed_compare_bounds Let_def shown_probability_def)
      from eff rest show ?thesis by simp
    qed
  qed
  have old: "effects (frontend_run_click resp s) \<noteq> effects s \<longrightarrow>
          out_innerHTML (frontend_run_click resp s) = Text (''Error: '' @ m)"
  proof (cases "marker s")
    case None
    then show ?thesis using frontend_run_click_not_sent [of s resp] by simp
  next
    case (Some pos)
    show ?thesis
    proof (cases "date_value s = []")
      case True
      then show ?thesis using frontend_run_click_not_sent [of s resp] by simp
    next
      case False
      then show ?thesis using frontend_run_click_error [OF Some False m] by simp
    qed
  qed
  from m new old show ?thesis by blast
qed

theorem failed_request_shows_error_witness:
  "failed (NotOk (Some ''No data''))
   \<and> effects (run_click (NotOk (Some ''No data'')) random_half sample_page) \<noteq> effects sample_page
   \<and> out_className (run_click (NotOk (Some ''No data'')) random_half sample_page) = ''result error''
   \<and> out_innerHTML (run_click (NotOk (Some ''No data'')) random_half sample_page)
       = Text ''Error: No data''
   \<and> effects (frontend_run_click (NotOk (Some ''No data'')) sample_page) \<noteq> effects sample_page
   \<and> out_innerHTML (frontend_run_click (NotOk (Some ''No data'')) sample_page)
       = Text ''Error: No data''"
proof -
  let ?r = "NotOk (Some ''No data'')"
  have f: "failed ?r" by simp
  have fj: "fetch_json ?r = Inl ''No data''" by (simp add: fetch_json_def)
  have sent: "effects (run_click ?r random_half sample_page) \<noteq> effects sample_page"
    using run_click_error [OF sample_page_fields(2) sample_page_passes fj] by simp
  have sent': "effects (frontend_run_click ?r sample_page) \<noteq> effects sample_page"
    using frontend_run_click_error [OF sample_page_fields(1) _ fj]
    by (simp add: sample_page_fields)
  from failed_request_shows_error [OF f, of random_half sample_page]
  obtain m where m: "fetch_json ?r = Inl m"
    and new: "effects (run_click ?r random_half sample_page) \<noteq> effects sample_page \<longrightarrow>
          out_className (run_click ?r random_half sample_page) = ''result error''
          \<and> out_innerHTML (run_click ?r random_half sample_page) = Text (''Error: '' @ errorMessage m)"
    and old: "effects (frontend_run_click ?r sample_page) \<noteq> effects sample_page \<longrightarrow>
          out_innerHTML (frontend_run_click ?r sample_page) = Text (''Error: '' @ m)"
    by blast
  from m fj have "m = ''No data''" by simp
  with new old sent sent' f show ?thesis
    by (simp add: errorMessage_plain)
qed

section \<open>Method and data source of a result\<close>

text \<open>
  Claim C2, as the code has it. Whenever the run handler shows a result card for an API
  result, the method line shows the result's \<open>method\<close> string verbatim if the result has
  one and it is not empty, and the text \<open>default_method\<close> of the frontend otherwise; the
  data-source line shows the entries of the result's \<open>source\<close> list joined by a comma and
  a space if the result has such a list, and the text \<open>default_source\<close> of the frontend
  otherwise.
\<close>

theorem provenance_strings_shown:
  assumes "out_className (run_click (Ok data) random s) = ''result has-data''"
  shows "shown_method (out_innerHTML (run_click (Ok data) random s))
         = Some (case method_str data of
                   Some m \<Rightarrow> if m \<noteq> [] then m else default_method
                 | None \<Rightarrow> default_method)
    \<and> shown_source (out_innerHTML (run_click (Ok data) random s))
         = Some (case source data of Some xs \<Rightarrow> join '', '' xs | None \<Rightarrow> default_source)"
proof -
  from run_click_has_data [OF assms] obtain pos
    where "selected_location s = Some pos" and "passes_validation pos s" by blast
  from run_click_ok [OF this, of data random] show ?thesis by simp
qed

theorem provenance_strings_shown_witness:
  "out_className
     (run_click (Ok (sample_data\<lparr>source := Some [''NASA POWER'', ''MERRA-2''],
                                 method_str := Some ''DOY window; Wilson 95% CI''\<rparr>))
        random_half sample_page) = ''result has-data''
   \<and> shown_method
         (out_innerHTML
            (run_click (Ok (sample_data\<lparr>source := Some [''NASA POWER'', ''MERRA-2''],
                                        method_str := Some ''DOY window; Wilson 95% CI''\<rparr>))
               random_half sample_page)) = Some ''DOY window; Wilson 95% CI''
   \<and> shown_source
         (out_innerHTML
            (run_click (Ok (sample_data\<lparr>source := Some [''NASA POWER'', ''MERRA-2''],
                                        method_str := Some ''DOY window; Wilson 95% CI''\<rparr>))
               random_half sample_page)) = Some ''NASA POWER, MERRA-2''"
proof -
  let ?d = "sample_data\<lparr>source := Some [''NASA POWER'', ''MERRA-2''],
                        method_str := Some ''DOY window; Wilson 95% CI''\<rparr>"
  have cls: "out_className (run_click (Ok ?d) random_half sample_page) = ''result has-data''"
    using run_click_ok [OF sample_page_fields(2) sample_page_passes, of ?d random_half]
    by simp
  from provenance_strings_shown [OF cls] cls show ?thesis
    by simp
qed

text \<open>
  Claim C2 as stated fails: a result whose \<open>method\<close> is the empty string is shown with
  the frontend's default method text, and a result without \<open>source\<close> with the frontend's
  default source text.
\<close>

theorem provenance_default_counterexample:
  "method_str (sample_data\<lparr>method_str := Some []\<rparr>) = Some []
   \<and> shown_method
         (out_innerHTML (run_click (Ok (sample_data\<lparr>method_str := Some []\<rparr>)) random_half sample_page))
       = Some (''DOY '' @ [CHR 0xB1] @ ''15d; binomial proportion (Wilson CI)'')
   \<and> source sample_data = None
   \<and> shown_source (out_innerHTML (run_click (Ok sample_data) random_half sample_page))
       = Some ''NASA POWER (MERRA-2 derived)''"
proof -
  have a: "shown_method
         (out_innerHTML (run_click (Ok (sample_data\<lparr>method_str := Some []\<rparr>)) random_half sample_page))
       = Some (''DOY '' @ [CHR 0xB1] @ ''15d; binomial proportion (Wilson CI)'')"
    using run_click_ok [OF sample_page_fields(2) sample_page_passes,
        of "sample_data\<lparr>method_str := Some []\<rparr>" random_half]
    by (simp add: default_method_def)
  have b: "shown_source (out_innerHTML (run_click (Ok sample_data) random_half sample_page))
       = Some ''NASA POWER (MERRA-2 derived)''"
    using run_click_ok [OF sample_page_fields(2) sample_page_passes, of sample_data random_half]
    by (simp add: default_source_def sample_data_def)
  from a b show ?thesis by (simp add: sample_data_def)
qed

section \<open>Validation before the request\<close>

lemma toFixed_value_close: "\<bar>toFixed_value x d - x\<bar> \<le> 1 / (2 * 10 ^ d)"
proof -
  define w where "w = \<bar>x\<bar> * 10 ^ d"
  define n where "n = \<lfloor>w + 1 / 2\<rfloor>"
  have wpos: "0 \<le> w" by (simp add: w_def)
  then have npos: "0 \<le> n" by (simp add: n_def)
  have lo: "real_of_int n \<le> w + 1 / 2" and hi: "w + 1 / 2 < real_of_int n + 1"
    by (simp_all add: n_def)
  have p: "(0::real) < 10 ^ d" by simp
  have a: "\<bar>real_of_int n - w\<bar> \<le> 1 / 2"
    using lo hi by linarith
  have "real_of_int n / 10 ^ d - \<bar>x\<bar> = (real_of_int n - w) / 10 ^ d"
    using p by (simp add: field_simps w_def)
  then have "\<bar>real_of_int n / 10 ^ d - \<bar>x\<bar>\<bar> = \<bar>real_of_int n - w\<bar> / 10 ^ d"
    using p by simp
  also have "\<dots> \<le> (1 / 2) / 10 ^ d"
    using a p by (intro divide_right_mono) auto
  finally have close: "\<bar>real_of_int n / 10 ^ d - \<bar>x\<bar>\<bar> \<le> 1 / (2 * 10 ^ d)" by simp
  have rn: "real (nat n) = real_of_int n" using npos by simp
  have val: "toFixed_value x d = (if x < 0 then - (real_of_int n / 10 ^ d) else real_of_int n / 10 ^ d)"
    unfolding toFixed_value_def w_def [symmetric] n_def [symmetric] rn by simp
  show ?thesis
  proof (cases "x < 0")
    case True
    then have "toFixed_value x d - x = - (real_of_int n / 10 ^ d - \<bar>x\<bar>)"
      by (simp add: val)
    then show ?thesis using close by simp
  next
    case False
    then have "toFixed_value x d - x = real_of_int n / 10 ^ d - \<bar>x\<bar>"
      by (simp add: val)
    then show ?thesis using close by simp
  qed
qed

text \<open>
  Claim C4, as the code has it. The run handler validates the coordinates it sends: the
  selected latitude and longitude written with four decimals (\<open>toFixed(4)\<close>) and read
  back, which is the selected value rounded to four decimals and so within 0.00005 of it
  (\<open>parseFloat\<close> rounds what it reads to a double, which leaves the four comparisons with
  the bounds as they are on the four-decimal value).
  For every activation, if no location is selected, or the rounded latitude lies outside
  \<open>[-90, 90]\<close>, or the rounded longitude lies outside \<open>[-180, 180]\<close>, or the date or the
  threshold field is empty, the output element shows an error text with the class
  \<open>result error\<close>, and no request is sent.
\<close>

theorem run_click_rejects_invalid:
  assumes "selected_location s = None
           \<or> (selected_location s = Some (la, lo)
               \<and> (toFixed_value la 4 < - 90 \<or> 90 < toFixed_value la 4
                    \<or> toFixed_value lo 4 < - 180 \<or> 180 < toFixed_value lo 4
                    \<or> date_value s = [] \<or> threshold_value s = []))"
  shows "out_className (run_click resp random s) = ''result error''
    \<and> (\<exists>t. out_innerHTML (run_click resp random s) = Text t)
    \<and> effects (run_click resp random s) = effects s
    \<and> parseFloat (toFixed la 4) = number_value (toFixed_value la 4)
    \<and> parseFloat (toFixed lo 4) = number_value (toFixed_value lo 4)
    \<and> num_lt (parseFloat (toFixed la 4)) (- 90) = (toFixed_value la 4 < - 90)
    \<and> num_gt (parseFloat (toFixed la 4)) 90 = (90 < toFixed_value la 4)
    \<and> num_lt (parseFloat (toFixed lo 4)) (- 180) = (toFixed_value lo 4 < - 180)
    \<and> num_gt (parseFloat (toFixed lo 4)) 180 = (180 < toFixed_value lo 4)
    \<and> \<bar>toFixed_value la 4 - la\<bar> \<le> 1 / 20000
    \<and> \<bar>toFixed_value lo 4 - lo\<bar> \<le> 1 / 20000"
proof -
  have rejected: "out_className (run_click resp random s) = ''result error''
    \<and> (\<exists>t. out_innerHTML (run_click resp random s) = Text t)
    \<and> effects (run_click resp random s) = effects s"
  proof (cases "selected_location s")
    case None
    from run_click_no_location [OF this, of resp random] show ?thesis by blast
  next
    case (Some pos)
    with assms have pos: "selected_location s = Some (la, lo)"
      and bad: "\<not> passes_validation (la, lo) s"
      by (auto simp add: passes_validation_def)
    from run_click_rejected [OF pos bad, of resp random] show ?thesis by blast
  qed
  moreover have "parseFloat (toFixed la 4) = number_value (toFixed_value la 4)"
    and "parseFloat (toFixed lo 4) = number_value (toFixed_value lo 4)"
    by (rule parseFloat_toFixed)+
  moreover have "\<bar>toFixed_value la 4 - la\<bar> \<le> 1 / 20000"
    and "\<bar>toFixed_value lo 4 - lo\<bar> \<le> 1 / 20000"
    using toFixed_value_close [of la 4] toFixed_value_close [of lo 4] by simp_all
  ultimately show ?thesis
    using toFixed_compare_bounds [of la] toFixed_compare_bounds [of lo] by blast
qed

theorem run_click_rejects_invalid_witness:
  "selected_location ((initial_page ''2024-07-01'')\<lparr>marker := Some (30, 190)\<rparr>) = Some (30, 190)
   \<and> 180 < toFixed_value 190 4
   \<and> out_className
         (run_click (Ok sample_data) random_half
            ((initial_page ''2024-07-01'')\<lparr>marker := Some (30, 190)\<rparr>)) = ''result error''
   \<and> effects
         (run_click (Ok sample_data) random_half
            ((initial_page ''2024-07-01'')\<lparr>marker := Some (30, 190)\<rparr>))
       = effects ((initial_page ''2024-07-01'')\<lparr>marker := Some (30, 190)\<rparr>)"
proof -
  let ?s = "(initial_page ''2024-07-01'')\<lparr>marker := Some (30, 190)\<rparr>"
  have loc: "selected_location ?s = Some (30, 190)"
    by (simp add: selected_location_def)
  have big: "180 < toFixed_value 190 4"
    by (simp add: toFixed_value_def)
  with loc have bad: "selected_location ?s = None
           \<or> (selected_location ?s = Some (30, 190)
               \<and> (toFixed_value 30 4 < - 90 \<or> 90 < toFixed_value 30 4
                    \<or> toFixed_value 190 4 < - 180 \<or> 180 < toFixed_value 190 4
                    \<or> date_value ?s = [] \<or> threshold_value ?s = []))"
    by blast
  from run_click_rejects_invalid [OF bad, of "Ok sample_data" random_half] loc big
  show ?thesis by blast
qed

lemma dateline_page_fields:
  "selected_location dateline_page = Some (30, 180.00004)"
  "date_value dateline_page = ''2024-07-01''"
  "threshold_value dateline_page = ''32''"
  "var_value dateline_page = ''T2M_MAX''"
  "comparison_value dateline_page = ''gt''"
  "window_value dateline_page = ''15''"
  "effects dateline_page = [NewMarker (30, 180.00004)]"
  by (simp_all add: dateline_page_def map_click_def initial_page_def addMarker_def
      clearAreaSelection_def updateAreaSelectionUI_def updateButtonState_def
      selected_location_def Let_def)

text \<open>
  Claim C4 as stated fails on a selected longitude just outside the range: a marker at
  longitude 180.00004 is sent as \<open>180.0000\<close>, passes the check, and the request is
  issued and its result shown.
\<close>

theorem longitude_rounding_counterexample:
  "(180 :: real) < snd (30 :: real, 180.00004 :: real)
   \<and> selected_location dateline_page = Some (30, 180.00004)
   \<and> out_className (run_click (Ok sample_data) random_half dateline_page) = ''result has-data''
   \<and> effects (run_click (Ok sample_data) random_half dateline_page)
       = [NewMarker (30, 180.00004),
          Fetch \<lparr>req_lat = ''30.0000'', req_lon = ''180.0000'', req_target_date = ''2024-07-01'',
                  req_var = ''T2M_MAX'', req_threshold = ''32'', req_comparison = ''gt'',
                  req_window_days = ''15''\<rparr>]"
proof -
  have pass: "passes_validation (30, 180.00004) dateline_page"
    by (simp add: passes_validation_def dateline_page_fields toFixed_value_def)
  have str: "toFixed 30 4 = ''30.0000''" "toFixed 180.00004 4 = ''180.0000''"
    by (simp_all add: toFixed_def toFixed_digits_def show_nat.simps digit_char_def Let_def)
  have req: "request_for (30, 180.00004) dateline_page
      = \<lparr>req_lat = ''30.0000'', req_lon = ''180.0000'', req_target_date = ''2024-07-01'',
          req_var = ''T2M_MAX'', req_threshold = ''32'', req_comparison = ''gt'',
          req_window_days = ''15''\<rparr>"
    unfolding request_for_def fst_conv snd_conv str dateline_page_fields by simp
  from run_click_ok [OF dateline_page_fields(1) pass, of sample_data random_half]
  show ?thesis
    unfolding req dateline_page_fields by simp
qed

section \<open>The Wilson interval\<close>

lemma wilson_z_pos: "0 < wilson_z"
  by (simp add: wilson_z_def)

lemma wilson_core:
  fixes p a :: real
  assumes "0 \<le> p" and "p \<le> 1" and "0 < a"
  shows "\<bar>a * (p - 1 / 2)\<bar> \<le> sqrt (a * (p * (1 - p)) + a\<^sup>2 / 4)"
proof -
  have q: "0 \<le> p * (1 - p)" using assms by simp
  have "(a * (p - 1 / 2))\<^sup>2 = a\<^sup>2 / 4 - a\<^sup>2 * (p * (1 - p))"
    by (simp add: power2_eq_square algebra_simps)
  also have "\<dots> \<le> a\<^sup>2 / 4 + a * (p * (1 - p))"
  proof -
    have "0 \<le> a\<^sup>2 * (p * (1 - p))" using q by simp
    moreover have "0 \<le> a * (p * (1 - p))" using q assms(3) by simp
    ultimately show ?thesis by linarith
  qed
  finally have "\<bar>a * (p - 1 / 2)\<bar>\<^sup>2 \<le> a * (p * (1 - p)) + a\<^sup>2 / 4"
    by (simp add: add.commute)
  then show ?thesis by (rule real_le_rsqrt)
qed

lemma wilson_root_pos:
  fixes p a :: real
  assumes "0 \<le> p" and "p \<le> 1" and "0 < a"
  shows "0 < sqrt (a * (p * (1 - p)) + a\<^sup>2 / 4)"
proof -
  have "0 \<le> a * (p * (1 - p))" using assms by simp
  moreover have "0 < a\<^sup>2 / 4" using assms(3) by simp
  ultimately have "0 < a * (p * (1 - p)) + a\<^sup>2 / 4" by linarith
  then show ?thesis by simp
qed

lemma wilson_parts:
  fixes k n :: nat
  assumes "0 < n"
  defines "p \<equiv> point_estimate k n" and "a \<equiv> wilson_z\<^sup>2 / real n"
  shows "wilson_center k n = (p + a / 2) / (1 + a)"
    and "wilson_half_width k n = sqrt (a * (p * (1 - p)) + a\<^sup>2 / 4) / (1 + a)"
proof -
  show "wilson_center k n = (p + a / 2) / (1 + a)"
    by (simp add: wilson_center_def p_def a_def)
  have n: "0 < real n" using assms(1) by simp
  have "wilson_z * sqrt (p * (1 - p) / real n + wilson_z\<^sup>2 / (4 * (real n)\<^sup>2))
        = sqrt (wilson_z\<^sup>2 * (p * (1 - p) / real n + wilson_z\<^sup>2 / (4 * (real n)\<^sup>2)))"
    using wilson_z_pos by (simp add: real_sqrt_mult)
  also have "wilson_z\<^sup>2 * (p * (1 - p) / real n + wilson_z\<^sup>2 / (4 * (real n)\<^sup>2))
        = a * (p * (1 - p)) + a\<^sup>2 / 4"
    using n by (simp add: a_def power2_eq_square field_simps)
  finally show "wilson_half_width k n = sqrt (a * (p * (1 - p)) + a\<^sup>2 / 4) / (1 + a)"
    by (simp add: wilson_half_width_def p_def a_def)
qed


lemma point_estimate_range:
  assumes "0 < n" and "k \<le> n"
  shows "0 \<le> point_estimate k n" and "point_estimate k n \<le> 1"
  using assms by (simp_all add: point_estimate_def)

lemma wilson_sides:
  fixes k n :: nat
  assumes "0 < n" and "k \<le> n"
  shows "wilson_center k n - wilson_half_width k n \<le> point_estimate k n"
    and "point_estimate k n \<le> wilson_center k n + wilson_half_width k n"
    and "0 < wilson_half_width k n"
    and "0 < wilson_center k n"
proof -
  define p where "p = point_estimate k n"
  define a where "a = wilson_z\<^sup>2 / real n"
  define r where "r = sqrt (a * (p * (1 - p)) + a\<^sup>2 / 4)"
  have p: "0 \<le> p" "p \<le> 1"
    using point_estimate_range [OF assms] by (simp_all add: p_def)
  have a: "0 < a" using assms(1) wilson_z_pos by (simp add: a_def)
  have d: "0 < 1 + a" using a by simp
  have c: "wilson_center k n = (p + a / 2) / (1 + a)"
    and h: "wilson_half_width k n = r / (1 + a)"
    using wilson_parts [OF assms(1), of k] by (simp_all add: p_def a_def r_def)
  have core: "\<bar>a * (p - 1 / 2)\<bar> \<le> r"
    unfolding r_def using p a by (rule wilson_core)
  have rpos: "0 < r"
    unfolding r_def using p a by (rule wilson_root_pos)
  have "p + a / 2 - r \<le> p * (1 + a)"
    using core by (simp add: abs_le_iff algebra_simps)
  then have "(p + a / 2 - r) / (1 + a) \<le> p"
    using d by (simp add: pos_divide_le_eq)
  then show "wilson_center k n - wilson_half_width k n \<le> point_estimate k n"
    by (simp add: c h p_def [symmetric] diff_divide_distrib)
  have "p * (1 + a) \<le> p + a / 2 + r"
    using core by (simp add: abs_le_iff algebra_simps)
  then have "p \<le> (p + a / 2 + r) / (1 + a)"
    using d by (simp add: pos_le_divide_eq)
  then show "point_estimate k n \<le> wilson_center k n + wilson_half_width k n"
    by (simp add: c h p_def [symmetric] add_divide_distrib)
  show "0 < wilson_half_width k n"
    using rpos d by (simp add: h)
  show "0 < wilson_center k n"
    using p a d by (simp add: c add_pos_nonneg)
qed


lemma wilson_low_below_one:
  fixes k n :: nat
  assumes "0 < n" and "k \<le> n"
  shows "wilson_center k n - wilson_half_width k n < 1"
proof -
  define p where "p = point_estimate k n"
  define a where "a = wilson_z\<^sup>2 / real n"
  define r where "r = sqrt (a * (p * (1 - p)) + a\<^sup>2 / 4)"
  have p: "0 \<le> p" "p \<le> 1"
    using point_estimate_range [OF assms] by (simp_all add: p_def)
  have a: "0 < a" using assms(1) wilson_z_pos by (simp add: a_def)
  have d: "0 < 1 + a" using a by simp
  have c: "wilson_center k n = (p + a / 2) / (1 + a)"
    and h: "wilson_half_width k n = r / (1 + a)"
    using wilson_parts [OF assms(1), of k] by (simp_all add: p_def a_def r_def)
  have rpos: "0 < r"
    unfolding r_def using p a by (rule wilson_root_pos)
  have "p + a / 2 - r < 1 + a" using p a rpos by linarith
  then have "(p + a / 2 - r) / (1 + a) < 1"
    using d by (simp add: pos_divide_less_eq)
  then show ?thesis by (simp add: c h diff_divide_distrib)
qed

lemma wilson_edge_root:
  fixes a :: real
  assumes "0 < a"
  shows "sqrt (a\<^sup>2 / 4) = a / 2"
proof -
  have "a\<^sup>2 / 4 = (a / 2)\<^sup>2" by (simp add: power2_eq_square)
  then show ?thesis using assms by simp
qed

lemma ci_none:
  fixes n :: nat
  assumes "0 < n"
  shows "ci_low 0 n = 0" and "ci_high 0 n = wilson_z\<^sup>2 / (real n + wilson_z\<^sup>2)"
proof -
  define a where "a = wilson_z\<^sup>2 / real n"
  have a: "0 < a" using assms wilson_z_pos by (simp add: a_def)
  have c: "wilson_center 0 n = (a / 2) / (1 + a)" and h: "wilson_half_width 0 n = (a / 2) / (1 + a)"
    using wilson_parts [OF assms, of 0] wilson_edge_root [OF a]
    by (simp_all add: a_def point_estimate_def)
  have up: "a / (1 + a) = wilson_z\<^sup>2 / (real n + wilson_z\<^sup>2)"
    using assms by (simp add: a_def field_simps)
  have "0 < a / (1 + a)" and "a / (1 + a) < 1" using a by simp_all
  then have hi: "clamp (a / (1 + a)) 0 1 = a / (1 + a)" by (simp add: clamp_def)
  show "ci_low 0 n = 0" by (simp add: ci_low_def c h clamp_def)
  have "a / 2 / (1 + a) + a / 2 / (1 + a) = (a / 2 + a / 2) / (1 + a)"
    by (simp only: add_divide_distrib)
  also have "a / 2 + a / 2 = a" by simp
  finally have "wilson_center 0 n + wilson_half_width 0 n = a / (1 + a)"
    by (simp only: c h)
  then have "ci_high 0 n = clamp (a / (1 + a)) 0 1"
    by (simp only: ci_high_def)
  also have "\<dots> = a / (1 + a)" by (rule hi)
  also have "\<dots> = wilson_z\<^sup>2 / (real n + wilson_z\<^sup>2)" by (rule up)
  finally show "ci_high 0 n = wilson_z\<^sup>2 / (real n + wilson_z\<^sup>2)" .
qed

lemma ci_all:
  fixes n :: nat
  assumes "0 < n"
  shows "ci_high n n = 1" and "ci_low n n = real n / (real n + wilson_z\<^sup>2)"
proof -
  define a where "a = wilson_z\<^sup>2 / real n"
  have a: "0 < a" using assms wilson_z_pos by (simp add: a_def)
  have pe: "point_estimate n n = 1" using assms by (simp add: point_estimate_def)
  have c: "wilson_center n n = (1 + a / 2) / (1 + a)" and h: "wilson_half_width n n = (a / 2) / (1 + a)"
    using wilson_parts [OF assms, of n] wilson_edge_root [OF a]
    by (simp_all add: a_def pe)
  have d: "1 + a \<noteq> 0" using a by simp
  have "(1 + a / 2) / (1 + a) + a / 2 / (1 + a) = (1 + a / 2 + a / 2) / (1 + a)"
    by (simp only: add_divide_distrib)
  also have "\<dots> = 1" using d by simp
  finally have sum: "wilson_center n n + wilson_half_width n n = 1"
    by (simp only: c h)
  have "(1 + a / 2) / (1 + a) - a / 2 / (1 + a) = (1 + a / 2 - a / 2) / (1 + a)"
    by (simp only: diff_divide_distrib)
  also have "1 + a / 2 - a / 2 = 1" by simp
  finally have diff: "wilson_center n n - wilson_half_width n n = 1 / (1 + a)"
    by (simp only: c h)
  have low: "1 / (1 + a) = real n / (real n + wilson_z\<^sup>2)"
    using assms by (simp add: a_def field_simps)
  have "0 < 1 / (1 + a)" and "1 / (1 + a) < 1" using a by simp_all
  then have lo: "clamp (1 / (1 + a)) 0 1 = 1 / (1 + a)" by (simp add: clamp_def)
  show "ci_high n n = 1" by (simp add: ci_high_def sum clamp_def)
  have "ci_low n n = clamp (1 / (1 + a)) 0 1"
    by (simp only: ci_low_def diff)
  also have "\<dots> = 1 / (1 + a)" by (rule lo)
  also have "\<dots> = real n / (real n + wilson_z\<^sup>2)" by (rule low)
  finally show "ci_low n n = real n / (real n + wilson_z\<^sup>2)" .
qed

text \<open>
  Claim C5. For all \<open>n > 0\<close> and \<open>k\<close> from 0 to \<open>n\<close>, the interval satisfies
  \<open>ci_low \<le> p \<le> ci_high\<close> with both bounds in \<open>[0, 1]\<close>, and it never collapses to a
  point: \<open>ci_low < ci_high\<close>, the edge cases \<open>k = 0\<close> and \<open>k = n\<close> included. At an edge
  the bound on the side of the estimate is fixed by \<open>ci_low \<le> p \<le> ci_high\<close>, and the
  other bound stays strictly inside \<open>(0, 1)\<close>: at \<open>k = n\<close>, where \<open>p = 1\<close>, the upper
  bound is 1 and the lower bound is \<open>n / (n + z\<^sup>2)\<close>, strictly between 0 and 1 for every
  \<open>n\<close>, however large; at \<open>k = 0\<close>, where \<open>p = 0\<close>, the lower bound is 0 and the upper
  bound is \<open>z\<^sup>2 / (n + z\<^sup>2)\<close>, strictly between 0 and 1.
\<close>

theorem wilson_interval_bounds:
  fixes k n :: nat
  assumes "0 < n" and "k \<le> n"
  shows "ci_low k n \<le> point_estimate k n \<and> point_estimate k n \<le> ci_high k n
    \<and> 0 \<le> ci_low k n \<and> ci_low k n \<le> 1 \<and> 0 \<le> ci_high k n \<and> ci_high k n \<le> 1
    \<and> ci_low k n < ci_high k n
    \<and> ci_low 0 n = 0 \<and> ci_high 0 n = wilson_z\<^sup>2 / (real n + wilson_z\<^sup>2)
    \<and> 0 < ci_high 0 n \<and> ci_high 0 n < 1
    \<and> ci_high n n = 1 \<and> ci_low n n = real n / (real n + wilson_z\<^sup>2)
    \<and> 0 < ci_low n n \<and> ci_low n n < 1"
proof -
  define lo where "lo = wilson_center k n - wilson_half_width k n"
  define hi where "hi = wilson_center k n + wilson_half_width k n"
  define p where "p = point_estimate k n"
  have p: "0 \<le> p" "p \<le> 1"
    using point_estimate_range [OF assms] by (simp_all add: p_def)
  have lop: "lo \<le> p" and phi: "p \<le> hi" and lohi: "lo < hi" and hipos: "0 < hi"
    using wilson_sides [OF assms] by (simp_all add: lo_def hi_def p_def)
  have lo1: "lo < 1" using wilson_low_below_one [OF assms] by (simp add: lo_def)
  have main: "max 0 (min 1 lo) \<le> p \<and> p \<le> max 0 (min 1 hi)
    \<and> 0 \<le> max 0 (min 1 lo) \<and> max 0 (min 1 lo) \<le> 1
    \<and> 0 \<le> max 0 (min 1 hi) \<and> max 0 (min 1 hi) \<le> 1
    \<and> max 0 (min 1 lo) < max 0 (min 1 hi)"
    using p lop phi lohi hipos lo1 by (simp add: max_def min_def)
  have z: "0 < wilson_z\<^sup>2" using wilson_z_pos by simp
  have n: "0 < real n" using assms(1) by simp
  have e0: "0 < wilson_z\<^sup>2 / (real n + wilson_z\<^sup>2)" "wilson_z\<^sup>2 / (real n + wilson_z\<^sup>2) < 1"
    using z n by (simp_all add: add_pos_pos)
  have e1: "0 < real n / (real n + wilson_z\<^sup>2)" "real n / (real n + wilson_z\<^sup>2) < 1"
    using z n by (simp_all add: add_pos_pos)
  have main': "ci_low k n \<le> point_estimate k n \<and> point_estimate k n \<le> ci_high k n
    \<and> 0 \<le> ci_low k n \<and> ci_low k n \<le> 1 \<and> 0 \<le> ci_high k n \<and> ci_high k n \<le> 1
    \<and> ci_low k n < ci_high k n"
    using main by (simp only: ci_low_def ci_high_def clamp_def lo_def hi_def p_def)
  show ?thesis
    using main' e0 e1 ci_none [OF assms(1)] ci_all [OF assms(1)] by simp
qed

theorem wilson_interval_bounds_witness:
  "(0 :: nat) < 10 \<and> (3 :: nat) \<le> 10
   \<and> ci_low 3 10 \<le> point_estimate 3 10 \<and> point_estimate 3 10 \<le> ci_high 3 10
   \<and> 0 \<le> ci_low 3 10 \<and> ci_high 3 10 \<le> 1 \<and> ci_low 3 10 < ci_high 3 10
   \<and> ci_low 0 10 = 0 \<and> ci_high 10 10 = 1
   \<and> 0 < ci_low 10 10 \<and> ci_low 10 10 < 1"
proof -
  have n: "(0 :: nat) < 10" and k: "(3 :: nat) \<le> 10" by simp_all
  from wilson_interval_bounds [OF n k] n k show ?thesis by blast
qed

section \<open>Coordinates typed into the location input\<close>

lemma parse_unsigned_digits_first:
  assumes "ip \<noteq> []" and "\<forall>c \<in> set ip. isDigit c"
  shows "\<exists>x. parse_unsigned (ip @ rest) = Some x"
proof -
  have "takeWhile isDigit (ip @ rest) = ip @ takeWhile isDigit rest"
    using assms(2) by (simp add: takeWhile_append2)
  then have "takeWhile isDigit (ip @ rest) \<noteq> []" using assms(1) by simp
  then show ?thesis by (simp add: parse_unsigned_def Let_def)
qed

lemma match_number_parses:
  assumes "match_number s = Some (g, r)"
  shows "\<exists>x. decimal_value g = Some x"
proof -
  define sg where "sg = (case s of c # r \<Rightarrow> if c = CHR ''-'' then ''-'' else [] | [] \<Rightarrow> [])"
  define ip where "ip = takeWhile isDigit (drop (length sg) s)"
  obtain rest where g: "g = sg @ ip @ rest" and ip: "ip \<noteq> []"
    using assms
    by (auto simp add: match_number_def Let_def sg_def [symmetric] ip_def [symmetric]
        split: if_splits)
  have dig: "\<forall>c \<in> set ip. isDigit c"
    by (auto simp add: ip_def dest: set_takeWhileD)
  from parse_unsigned_digits_first [OF ip dig]
  obtain x where x: "parse_unsigned (ip @ rest) = Some x" by blast
  obtain c ip' where c: "ip = c # ip'" using ip by (cases ip) auto
  with dig have cd: "isDigit c" by simp
  have sg: "sg = ''-'' \<or> sg = []"
    by (auto simp add: sg_def split: list.splits)
  then show ?thesis
  proof
    assume "sg = ''-''"
    then show ?thesis using x by (simp add: g decimal_value_def isSpace_def)
  next
    assume "sg = []"
    then show ?thesis
      using x c digit_not_special [OF cd] by (simp add: g decimal_value_def)
  qed
qed

lemma coordMatch_parses:
  assumes "coordMatch input = Some (g1, g2)"
  shows "\<exists>x y. decimal_value g1 = Some x \<and> decimal_value g2 = Some y"
proof -
  from assms obtain r1 r2 where "match_number input = Some (g1, r1)"
    and "match_number r2 = Some (g2, [])"
    by (auto simp add: coordMatch_def split: option.splits list.splits if_splits)
  then show ?thesis using match_number_parses by blast
qed

lemma addMarker_fields:
  "marker (addMarker la lo s) = Some (la, lo)"
  "selectedArea (addMarker la lo s) = None"
  "effects (addMarker la lo s) = effects s @ [NewMarker (la, lo)]"
  by (simp_all add: addMarker_def clearAreaSelection_def updateAreaSelectionUI_def
      updateButtonState_def Let_def)

lemma location_input_read:
  assumes "coordMatch (trim v) = Some (g1, g2)"
    and "decimal_value g1 = Some x" and "decimal_value g2 = Some y"
  shows "case (number_value x, number_value y) of
           (Num la, Num lo) \<Rightarrow>
             if - 90 \<le> la \<and> la \<le> 90 \<and> - 180 \<le> lo \<and> lo \<le> 180
             then marker (location_input_handler v s) = Some (la, lo)
                  \<and> effects (location_input_handler v s)
                      = effects s @ [NewMarker (la, lo), SetView (la, lo) 10]
             else marker (location_input_handler v s) = marker s
                  \<and> effects (location_input_handler v s) = effects s
         | _ \<Rightarrow> marker (location_input_handler v s) = marker s
                  \<and> effects (location_input_handler v s) = effects s"
  by (cases "number_value x"; cases "number_value y")
     (simp_all add: location_input_handler_def Let_def assms parseFloat_def addMarker_fields)

lemma location_input_accepted:
  assumes "coordMatch (trim v) = Some (g1, g2)"
    and "decimal_value g1 = Some x" and "decimal_value g2 = Some y"
    and "number_value x = Num la" and "number_value y = Num lo"
    and "\<bar>la\<bar> \<le> 90" and "\<bar>lo\<bar> \<le> 180"
  shows "marker (location_input_handler v s) = Some (la, lo)
    \<and> effects (location_input_handler v s) = effects s @ [NewMarker (la, lo), SetView (la, lo) 10]"
proof -
  have "- 90 \<le> la \<and> la \<le> 90 \<and> - 180 \<le> lo \<and> lo \<le> 180"
    using assms(6,7) by linarith
  then show ?thesis
    using location_input_read [OF assms(1-3), of s] assms(4,5) by simp
qed

lemma location_input_rejected:
  assumes "coordMatch (trim v) = Some (g1, g2)"
    and "decimal_value g1 = Some x" and "decimal_value g2 = Some y"
    and "num_lt (number_value x) (- 90) \<or> num_gt (number_value x) 90
         \<or> num_lt (number_value y) (- 180) \<or> num_gt (number_value y) 180"
  shows "marker (location_input_handler v s) = marker s
    \<and> effects (location_input_handler v s) = effects s"
  using location_input_read [OF assms(1-3), of s] assms(4)
  by (cases "number_value x"; cases "number_value y") auto

text \<open>
  Claim C6, as the code has it. When the trimmed text of the location input matches the
  coordinate pattern, both groups are decimal numbers \<open>x\<close> and \<open>y\<close>, and \<open>parseFloat\<close>
  reads them as the doubles nearest to them. The handler places a marker at the
  coordinates read and moves the map there if and only if the latitude read is in
  \<open>[-90, 90]\<close> and the longitude read is in \<open>[-180, 180]\<close>; otherwise no marker is made,
  the map is not moved and the marker stays what it was. So every typed pair inside the
  two ranges places a marker, at most \<open>2^(-46)\<close> away from the typed values, and a typed
  value more than \<open>10^(-13)\<close> outside its range places none.
\<close>

theorem coordinate_input_places_marker:
  assumes "coordMatch (trim v) = Some (g1, g2)"
  shows "\<exists>x y. decimal_value g1 = Some x \<and> decimal_value g2 = Some y
    \<and> parseFloat g1 = number_value x \<and> parseFloat g2 = number_value y
    \<and> (case (number_value x, number_value y) of
          (Num la, Num lo) \<Rightarrow>
            if - 90 \<le> la \<and> la \<le> 90 \<and> - 180 \<le> lo \<and> lo \<le> 180
            then marker (location_input_handler v s) = Some (la, lo)
                 \<and> effects (location_input_handler v s)
                     = effects s @ [NewMarker (la, lo), SetView (la, lo) 10]
            else marker (location_input_handler v s) = marker s
                 \<and> effects (location_input_handler v s) = effects s
        | _ \<Rightarrow> marker (location_input_handler v s) = marker s
                 \<and> effects (location_input_handler v s) = effects s)
    \<and> (- 90 \<le> x \<and> x \<le> 90 \<and> - 180 \<le> y \<and> y \<le> 180 \<longrightarrow>
          (\<exists>la lo. number_value x = Num la \<and> number_value y = Num lo
             \<and> \<bar>la - x\<bar> \<le> 1 / 2 ^ 46 \<and> \<bar>lo - y\<bar> \<le> 1 / 2 ^ 46
             \<and> marker (location_input_handler v s) = Some (la, lo)
             \<and> effects (location_input_handler v s)
                 = effects s @ [NewMarker (la, lo), SetView (la, lo) 10]))
    \<and> (x < - 90 - 1 / 10 ^ 13 \<or> 90 + 1 / 10 ^ 13 < x
          \<or> y < - 180 - 1 / 10 ^ 13 \<or> 180 + 1 / 10 ^ 13 < y \<longrightarrow>
          marker (location_input_handler v s) = marker s
          \<and> effects (location_input_handler v s) = effects s)"
proof -
  from coordMatch_parses [OF assms] obtain x y
    where x: "decimal_value g1 = Some x" and y: "decimal_value g2 = Some y" by blast
  have pf: "parseFloat g1 = number_value x" "parseFloat g2 = number_value y"
    by (simp_all add: parseFloat_def x y)
  note read = location_input_read [OF assms x y, of s]
  have inside: "\<exists>la lo. number_value x = Num la \<and> number_value y = Num lo
             \<and> \<bar>la - x\<bar> \<le> 1 / 2 ^ 46 \<and> \<bar>lo - y\<bar> \<le> 1 / 2 ^ 46
             \<and> marker (location_input_handler v s) = Some (la, lo)
             \<and> effects (location_input_handler v s)
                 = effects s @ [NewMarker (la, lo), SetView (la, lo) 10]"
    if "- 90 \<le> x \<and> x \<le> 90 \<and> - 180 \<le> y \<and> y \<le> 180"
  proof -
    have "\<bar>x\<bar> \<le> 90" and "\<bar>y\<bar> \<le> 180" using that by linarith+
    then have ax: "\<bar>x\<bar> \<le> of_int 90" and ay: "\<bar>y\<bar> \<le> of_int 180" by simp_all
    from number_value_finite [OF ax] obtain la
      where la: "number_value x = Num la" "\<bar>la\<bar> \<le> 90" by auto
    from number_value_finite [OF ay] obtain lo
      where lo: "number_value y = Num lo" "\<bar>lo\<bar> \<le> 180" by auto
    have "\<bar>x\<bar> \<le> 180" using ax by simp
    from number_value_near [OF this la(1)] number_value_near [OF _ lo(1)] ay
    have near: "\<bar>la - x\<bar> \<le> 1 / 2 ^ 46" "\<bar>lo - y\<bar> \<le> 1 / 2 ^ 46" by simp_all
    from location_input_accepted [OF assms x y la(1) lo(1) la(2) lo(2), of s] la(1) lo(1) near
    show ?thesis by blast
  qed
  have outside: "marker (location_input_handler v s) = marker s
          \<and> effects (location_input_handler v s) = effects s"
    if far: "x < - 90 - 1 / 10 ^ 13 \<or> 90 + 1 / 10 ^ 13 < x
          \<or> y < - 180 - 1 / 10 ^ 13 \<or> 180 + 1 / 10 ^ 13 < y"
  proof -
    have m: "(1::real) / 10 ^ 13 \<le> 1 / 10 ^ 13" by simp
    have "num_lt (number_value x) (- 90)" if "x < - 90 - 1 / 10 ^ 13"
      using number_value_below [of x 90 "1 / 10 ^ 13"] that by simp
    moreover have "num_gt (number_value x) 90" if "90 + 1 / 10 ^ 13 < x"
      using number_value_above [of 90 "1 / 10 ^ 13" x] that by simp
    moreover have "num_lt (number_value y) (- 180)" if "y < - 180 - 1 / 10 ^ 13"
      using number_value_below [of y 180 "1 / 10 ^ 13"] that by simp
    moreover have "num_gt (number_value y) 180" if "180 + 1 / 10 ^ 13 < y"
      using number_value_above [of 180 "1 / 10 ^ 13" y] that by simp
    ultimately have "num_lt (number_value x) (- 90) \<or> num_gt (number_value x) 90
         \<or> num_lt (number_value y) (- 180) \<or> num_gt (number_value y) 180"
      using far by blast
    from location_input_rejected [OF assms x y this] show ?thesis .
  qed
  from x y pf read inside outside show ?thesis by blast
qed

lemma coordMatch_dyadic: "coordMatch (trim '' 30.5, 31.25'') = Some (''30.5'', ''31.25'')"
  by (simp add: coordMatch_def match_number_def trim_def isSpace_def isDigit_def Let_def)

lemma coordMatch_far: "coordMatch (trim ''95,10'') = Some (''95'', ''10'')"
  by (simp add: coordMatch_def match_number_def trim_def isSpace_def isDigit_def Let_def)

lemma decimal_value_samples:
  "decimal_value ''30.5'' = Some 30.5" "decimal_value ''31.25'' = Some 31.25"
  "decimal_value ''95'' = Some 95" "decimal_value ''10'' = Some 10"
  by (simp_all add: decimal_value_def parse_unsigned_def isSpace_def isDigit_def digits_val_def
      digit_val_def Let_def)

lemma number_value_samples:
  "number_value 30.5 = Num 30.5" "number_value 31.25 = Num 31.25"
  "number_value 95 = Num 95" "number_value 10 = Num 10"
  by (simp_all add: number_value_def round_magnitude_def binary_exponent.simps Let_def
      round_even_def power_int_def power_one_over)

theorem coordinate_input_places_marker_witness:
  "coordMatch (trim '' 30.5, 31.25'') = Some (''30.5'', ''31.25'')
   \<and> marker (location_input_handler '' 30.5, 31.25'' (initial_page ''2024-07-01''))
       = Some (30.5, 31.25)
   \<and> effects (location_input_handler '' 30.5, 31.25'' (initial_page ''2024-07-01''))
       = [NewMarker (30.5, 31.25), SetView (30.5, 31.25) 10]
   \<and> coordMatch (trim ''95,10'') = Some (''95'', ''10'')
   \<and> marker (location_input_handler ''95,10'' (initial_page ''2024-07-01'')) = None
   \<and> effects (location_input_handler ''95,10'' (initial_page ''2024-07-01'')) = []"
proof -
  let ?s = "initial_page ''2024-07-01''"
  have init: "marker ?s = None" "effects ?s = []"
    by (simp_all add: initial_page_def updateButtonState_def)
  from coordinate_input_places_marker [OF coordMatch_dyadic, of ?s]
  obtain x y where "decimal_value ''30.5'' = Some x" and "decimal_value ''31.25'' = Some y"
    and inside: "- 90 \<le> x \<and> x \<le> 90 \<and> - 180 \<le> y \<and> y \<le> 180 \<longrightarrow>
          (\<exists>la lo. number_value x = Num la \<and> number_value y = Num lo
             \<and> \<bar>la - x\<bar> \<le> 1 / 2 ^ 46 \<and> \<bar>lo - y\<bar> \<le> 1 / 2 ^ 46
             \<and> marker (location_input_handler '' 30.5, 31.25'' ?s) = Some (la, lo)
             \<and> effects (location_input_handler '' 30.5, 31.25'' ?s)
                 = effects ?s @ [NewMarker (la, lo), SetView (la, lo) 10])"
    by blast
  then have xy: "x = 30.5" "y = 31.25"
    by (simp_all add: decimal_value_samples)
  have "- 90 \<le> x \<and> x \<le> 90 \<and> - 180 \<le> y \<and> y \<le> 180" by (simp add: xy)
  with inside obtain la lo where "number_value x = Num la" and "number_value y = Num lo"
    and placed: "marker (location_input_handler '' 30.5, 31.25'' ?s) = Some (la, lo)
             \<and> effects (location_input_handler '' 30.5, 31.25'' ?s)
                 = effects ?s @ [NewMarker (la, lo), SetView (la, lo) 10]"
    by blast
  then have "la = 30.5" and "lo = 31.25"
    unfolding xy number_value_samples by simp_all
  with placed have a: "marker (location_input_handler '' 30.5, 31.25'' ?s) = Some (30.5, 31.25)
      \<and> effects (location_input_handler '' 30.5, 31.25'' ?s)
          = [NewMarker (30.5, 31.25), SetView (30.5, 31.25) 10]"
    by (simp add: init)
  from coordinate_input_places_marker [OF coordMatch_far, of ?s]
  obtain x' y' where "decimal_value ''95'' = Some x'" and "decimal_value ''10'' = Some y'"
    and outside: "x' < - 90 - 1 / 10 ^ 13 \<or> 90 + 1 / 10 ^ 13 < x'
          \<or> y' < - 180 - 1 / 10 ^ 13 \<or> 180 + 1 / 10 ^ 13 < y' \<longrightarrow>
          marker (location_input_handler ''95,10'' ?s) = marker ?s
          \<and> effects (location_input_handler ''95,10'' ?s) = effects ?s"
    by blast
  then have "x' = 95" and "y' = 10"
    by (simp_all add: decimal_value_samples)
  with outside have b: "marker (location_input_handler ''95,10'' ?s) = None
      \<and> effects (location_input_handler ''95,10'' ?s) = []"
    by (simp add: init)
  from a b coordMatch_dyadic coordMatch_far show ?thesis by blast
qed

lemma coordMatch_above_90:
  "coordMatch (trim ''90.0000000000000001, 0'') = Some (''90.0000000000000001'', ''0'')"
  by (simp add: coordMatch_def match_number_def trim_def isSpace_def isDigit_def Let_def)

lemma decimal_value_above_90:
  "decimal_value ''90.0000000000000001'' = Some (90 + 1 / 10 ^ 16)"
  "decimal_value ''0'' = Some 0"
  by (simp_all add: decimal_value_def parse_unsigned_def isSpace_def isDigit_def digits_val_def
      digit_val_def Let_def)

lemma number_value_above_90:
  "number_value (90 + 1 / 10 ^ 16) = Num 90" "number_value 0 = Num 0"
  by (simp_all add: number_value_def round_magnitude_def binary_exponent.simps Let_def
      round_even_def power_int_def power_one_over)

text \<open>
  Claim C6 as stated fails on a typed latitude just above 90: \<open>parseFloat\<close> reads
  \<open>90.0000000000000001\<close> as the double 90, so the input \<open>90.0000000000000001, 0\<close>, whose
  latitude is outside \<open>[-90, 90]\<close>, places a marker at \<open>(90, 0)\<close> and moves the map there.
\<close>

theorem typed_latitude_rounding_counterexample:
  "coordMatch (trim ''90.0000000000000001, 0'') = Some (''90.0000000000000001'', ''0'')
   \<and> decimal_value ''90.0000000000000001'' = Some (90 + 1 / 10 ^ 16)
   \<and> (90 :: real) < 90 + 1 / 10 ^ 16
   \<and> marker (location_input_handler ''90.0000000000000001, 0'' (initial_page ''2024-07-01''))
       = Some (90, 0)
   \<and> effects (location_input_handler ''90.0000000000000001, 0'' (initial_page ''2024-07-01''))
       = [NewMarker (90, 0), SetView (90, 0) 10]"
proof -
  let ?s = "initial_page ''2024-07-01''"
  have init: "effects ?s = []"
    by (simp add: initial_page_def updateButtonState_def)
  have "marker (location_input_handler ''90.0000000000000001, 0'' ?s) = Some (90, 0)
    \<and> effects (location_input_handler ''90.0000000000000001, 0'' ?s)
        = effects ?s @ [NewMarker (90, 0), SetView (90, 0) 10]"
    by (rule location_input_accepted [OF coordMatch_above_90 decimal_value_above_90
          number_value_above_90]) simp_all
  then show ?thesis
    using coordMatch_above_90 decimal_value_above_90(1) by (simp add: init)
qed

section \<open>Marker and selected area\<close>

text \<open>
  What the code does to keep the marker and the selected area apart: placing a marker
  clears the area selection (see \<open>addMarker_fields\<close>), a click on the map or on a
  suggestion leaves a marker and no area, switching to area mode removes the marker, and
  switching back to point mode clears the area.
\<close>

lemma clearAreaSelection_fields:
  "selectedArea (clearAreaSelection s) = None"
  "selectionRectangle (clearAreaSelection s) = None"
  "isSelectingArea (clearAreaSelection s) = False"
  "marker (clearAreaSelection s) = marker s"
  by (simp_all add: clearAreaSelection_def updateAreaSelectionUI_def)

lemma selection_mode_click_fields:
  "selectionMode s = ''point'' \<Longrightarrow> marker (selection_mode_click s) = None"
  "selectionMode s = ''point'' \<Longrightarrow> areaSelectionMode (selection_mode_click s)"
  "selectionMode s \<noteq> ''point'' \<Longrightarrow> selectedArea (selection_mode_click s) = None"
  "selectionMode s \<noteq> ''point'' \<Longrightarrow> \<not> areaSelectionMode (selection_mode_click s)"
  by (simp_all add: selection_mode_click_def updateMapInteractions_def updateButtonState_def
      clearAreaSelection_def updateAreaSelectionUI_def Let_def)

lemma map_click_exclusive:
  "\<not> areaSelectionMode s \<Longrightarrow> marker (map_click e s) = Some e \<and> selectedArea (map_click e s) = None"
  by (simp add: map_click_def addMarker_fields)

lemma selectCity_exclusive:
  "marker (selectCity c s) = Some (lat c, lng c) \<and> selectedArea (selectCity c s) = None"
  by (simp add: selectCity_def Let_def updateButtonState_def addMarker_fields)

text \<open>
  The path the code misses: the location input places a marker in area mode as well, and
  finishing a drag sets the selected area without removing the marker.
\<close>

lemma coordMatch_30_31: "coordMatch (trim ''30, 31'') = Some (''30'', ''31'')"
  by (simp add: coordMatch_def match_number_def trim_def isSpace_def isDigit_def Let_def)

lemma parseFloat_30_31: "parseFloat ''30'' = Num 30" "parseFloat ''31'' = Num 31"
  by (simp_all add: parseFloat_def decimal_value_def parse_unsigned_def isSpace_def isDigit_def
      digits_val_def digit_val_def number_value_def round_magnitude_def binary_exponent.simps
      round_even_def power_int_def power_one_over Let_def)

lemma typed_in_area_mode:
  fixes s0 :: page
  defines "s \<equiv> location_input_handler ''30, 31'' (selection_mode_click s0)"
  assumes "selectionMode s0 = ''point''"
  shows "marker s = Some (30, 31)" and "selectedArea s = None" and "areaSelectionMode s"
  using assms(2)
  by (simp_all add: s_def location_input_handler_def Let_def coordMatch_30_31 parseFloat_30_31
      addMarker_def clearAreaSelection_def updateAreaSelectionUI_def updateButtonState_def
      selection_mode_click_def updateMapInteractions_def)

lemma drag_selects_area:
  assumes "areaSelectionMode s" and "100 < distanceTo (29.9, 30.9) (30.1, 31.1)"
  defines "s' \<equiv> map_mouseup distanceTo (30.1, 31.1)
                   (map_mousemove (30.1, 31.1) (map_mousedown False True (29.9, 30.9) s))"
  shows "marker s' = marker s"
    and "selectedArea s' = Some \<lparr>southWest = (29.9, 30.9), northEast = (30.1, 31.1)\<rparr>"
  using assms(1,2)
  by (simp_all add: s'_def map_mouseup_def map_mousemove_def map_mousedown_def latLngBounds_def
      updateAreaSelectionUI_def updateButtonState_def Let_def)

lemma typed_then_dragged_both:
  assumes "selectionMode s0 = ''point''" and "100 < distanceTo (29.9, 30.9) (30.1, 31.1)"
  shows "marker (run_events distanceTo typed_then_dragged s0) = Some (30, 31)
    \<and> selectedArea (run_events distanceTo typed_then_dragged s0)
        = Some \<lparr>southWest = (29.9, 30.9), northEast = (30.1, 31.1)\<rparr>"
proof -
  let ?s = "location_input_handler ''30, 31'' (selection_mode_click s0)"
  have run: "run_events distanceTo typed_then_dragged s0
      = map_mouseup distanceTo (30.1, 31.1)
          (map_mousemove (30.1, 31.1) (map_mousedown False True (29.9, 30.9) ?s))"
    by (simp add: run_events_def typed_then_dragged_def)
  have mode: "areaSelectionMode ?s" and typed: "marker ?s = Some (30, 31)"
    using typed_in_area_mode [OF assms(1)] by simp_all
  note drag = drag_selects_area [where s = "?s" and distanceTo = distanceTo, OF mode assms(2)]
  show ?thesis
    unfolding run using drag typed by simp
qed

text \<open>
  Claim C9 says that at every reachable state at most one of the marker and the selected
  area is set. The code does not keep this: after the session \<open>typed_then_dragged\<close> on
  the freshly loaded page (the drag spans about 29 km, far more than the 100 m the
  handler asks for) both are set: the marker at \<open>(30, 31)\<close> and the area from
  \<open>(29.9, 30.9)\<close> to \<open>(30.1, 31.1)\<close>.
\<close>

theorem typed_then_dragged_marker_and_area:
  "marker (run_events distance_29km typed_then_dragged (initial_page ''2024-07-01''))
     = Some (30, 31)
   \<and> selectedArea (run_events distance_29km typed_then_dragged (initial_page ''2024-07-01''))
     = Some \<lparr>southWest = (29.9, 30.9), northEast = (30.1, 31.1)\<rparr>"
proof -
  have "selectionMode (initial_page ''2024-07-01'') = ''point''"
    by (simp add: initial_page_def updateButtonState_def)
  then show ?thesis
    using typed_then_dragged_both [where distanceTo = distance_29km]
    by (simp add: distance_29km_def)
qed

end
